theory Spec2Isabelle
  imports Complex_Main
begin

section \<open>JavaScript strings\<close>

text \<open>
  A JavaScript string is a sequence of UTF-16 code units. A code unit is modelled by its
  number (a \<open>nat\<close>; the numbers of real code units are below 65536), a string by the list
  of its code units. \<open>str\<close> turns an ASCII literal of the source into that list.
\<close>

type_synonym jsstring = "nat list"

definition str :: "string \<Rightarrow> jsstring" where
  "str s = map of_char s"

text \<open>
  \<open>startsWith s t\<close>: the text \<open>t\<close> stands at the start of \<open>s\<close> (what \<open>^\<close> followed by \<open>t\<close>
  matches). \<open>s.includes(t)\<close>: it stands at some position of \<open>s\<close>.
\<close>

definition startsWith :: "jsstring \<Rightarrow> jsstring \<Rightarrow> bool" where
  "startsWith s t \<longleftrightarrow> take (length t) s = t"

fun includes_str :: "jsstring \<Rightarrow> jsstring \<Rightarrow> bool" where
  "includes_str [] t \<longleftrightarrow> t = []"
| "includes_str (c # cs) t \<longleftrightarrow> startsWith (c # cs) t \<or> includes_str cs t"

text \<open>
  The class \<open>\s\<close> of a regular expression, which is also what \<open>trim\<close> removes: the
  WhiteSpace and LineTerminator code points of ECMAScript (TAB, LF, VT, FF, CR, SP, NBSP,
  U+1680, U+2000 to U+200A, LS, PS, U+202F, U+205F, U+3000, BOM).
\<close>

definition is_space :: "nat \<Rightarrow> bool" where
  "is_space c \<longleftrightarrow>
     c = 9 \<or> c = 10 \<or> c = 11 \<or> c = 12 \<or> c = 13 \<or> c = 32 \<or> c = 160 \<or> c = 5760 \<or>
     (8192 \<le> c \<and> c \<le> 8202) \<or> c = 8232 \<or> c = 8233 \<or> c = 8239 \<or> c = 8287 \<or>
     c = 12288 \<or> c = 65279"

definition trim :: "jsstring \<Rightarrow> jsstring" where
  "trim s = rev (dropWhile is_space (rev (dropWhile is_space s)))"

section \<open>Fence stripping\<close>

text \<open>
  Both JSON routes clean the model's text with
  \<^verbatim>\<open>text.replace(/^```json\s*/, "").replace(/\s*```$/, "")\<close>.
  \<open>replace\<close> with a regular expression without the \<open>g\<close> flag replaces the leftmost match.
  The first pattern is anchored at the start of the text: it matches there when the text
  starts with the fence, and then takes the fence and all the white space after it.
\<close>

definition replace_leading_fence :: "jsstring \<Rightarrow> jsstring" where
  \<open>replace_leading_fence text =
     (if startsWith text (str ''```json'') then dropWhile is_space (drop 7 text) else text)\<close>

text \<open>
  The second pattern must end at the end of the text. The search tries the start
  positions from left to right; at a position the pattern matches when the white space
  from there on is followed by the three backquotes and nothing else. The match is
  removed, which leaves the text before it; without a match the text stays.
\<close>

fun replace_trailing_fence :: "jsstring \<Rightarrow> jsstring" where
  \<open>replace_trailing_fence [] = []\<close>
| \<open>replace_trailing_fence (c # cs) =
     (if dropWhile is_space (c # cs) = str ''```'' then [] else c # replace_trailing_fence cs)\<close>

definition cleanedText :: "jsstring \<Rightarrow> jsstring" where
  "cleanedText text = replace_trailing_fence (replace_leading_fence text)"

section \<open>JSON values\<close>

text \<open>
  A number as \<open>JSON.parse\<close> yields it: a finite double, which is a rational (the model
  does not tell \<open>-0\<close> from \<open>0\<close>), or an infinity (a literal out of the range of a double).
\<close>

datatype number = Finite rat | PosInfinity | NegInfinity

text \<open>
  A JSON value; an object is the list of its members in order. \<open>undefined\<close> is no JSON
  value: where the code can meet it, the model has a \<open>json option\<close> with \<open>None\<close> for it.
\<close>

datatype json =
    JNull
  | JBool bool
  | JNumber number
  | JString jsstring
  | JArray "json list"
  | JObject "(jsstring \<times> json) list"

text \<open>What \<open>!v\<close> negates: \<open>undefined\<close>, \<open>null\<close>, \<open>false\<close>, \<open>0\<close> and \<open>""\<close> are falsy.\<close>

fun truthy :: "json option \<Rightarrow> bool" where
  "truthy None = False"
| "truthy (Some JNull) = False"
| "truthy (Some (JBool b)) = b"
| "truthy (Some (JNumber n)) = (n \<noteq> Finite 0)"
| "truthy (Some (JString s)) = (s \<noteq> [])"
| "truthy (Some (JArray xs)) = True"
| "truthy (Some (JObject ms)) = True"

text \<open>
  \<open>v.k\<close> for a value \<open>v\<close> that is not \<open>null\<close> (on \<open>null\<close> the read throws a TypeError,
  which each caller below handles before it reads): the member of an object, and
  \<open>undefined\<close> on every other value, since none of the names the routes read
  (\<open>topic\<close>, \<open>difficulty\<close>, \<open>questionType\<close>, \<open>question\<close>, \<open>userMessage\<close>, \<open>chatHistory\<close>,
  \<open>questionText\<close>, \<open>options\<close>, \<open>correctAnswer\<close>, \<open>explanation\<close>, \<open>sender\<close>, \<open>text\<close>) is a
  property of an array, a string, a number or a boolean, or inherited by an object.
\<close>

fun get_property :: "json \<Rightarrow> string \<Rightarrow> json option" where
  "get_property (JObject ms) k = map_of ms (str k)"
| "get_property v k = None"

section \<open>\<open>JSON.parse\<close>\<close>

text \<open>
  The routes take \<open>JSON.parse\<close> from the platform, and what is proved of them below
  holds for every parser. The examples need a parser that runs: \<open>parse_text\<close> reads a
  text by the JSON grammar of ECMA-404, which is the grammar of \<open>JSON.parse\<close>. It scans
  the text into tokens and then builds the value with a stack of the arrays and objects
  that are still open. A number literal is given its exact decimal value (\<open>JSON.parse\<close>
  rounds that value to the nearest double; the rounding is not modelled). A member
  whose name is already in the object replaces the value of the earlier one, at its
  place. The members are kept in the order of the text (JavaScript enumerates names
  that are array indices first; the routes never enumerate an object).
\<close>

datatype token =
    LBrace | RBrace | LBracket | RBracket | Colon | Comma
  | TString jsstring | TNumber jsstring | TWord jsstring

datatype lexing =
    Between
  | InString jsstring
  | InEscape jsstring
  | InUnicode jsstring "nat list"
  | InNumber jsstring
  | InWord jsstring

text \<open>
  The scanner reads one code unit at a time. Between tokens it skips the white space of
  JSON (space, TAB, LF, CR); in a string it reads up to the closing quote, with the
  escapes of JSON, and refuses control characters; a number or a word (\<open>true\<close>,
  \<open>false\<close>, \<open>null\<close>) ends at the first code unit that cannot continue it, which is then
  read as the start of the next token.
\<close>

definition is_json_space :: "nat \<Rightarrow> bool" where
  "is_json_space c \<longleftrightarrow> c = 32 \<or> c = 9 \<or> c = 10 \<or> c = 13"

definition is_digit :: "nat \<Rightarrow> bool" where
  "is_digit c \<longleftrightarrow> 48 \<le> c \<and> c \<le> 57"

definition hex_value :: "nat \<Rightarrow> nat option" where
  "hex_value c =
     (if 48 \<le> c \<and> c \<le> 57 then Some (c - 48)
      else if 97 \<le> c \<and> c \<le> 102 then Some (c - 87)
      else if 65 \<le> c \<and> c \<le> 70 then Some (c - 55)
      else None)"

definition between_char :: "token list \<Rightarrow> nat \<Rightarrow> (lexing \<times> token list) option" where
  "between_char toks c =
     (if is_json_space c then Some (Between, toks)
      else if c = 123 then Some (Between, LBrace # toks)
      else if c = 125 then Some (Between, RBrace # toks)
      else if c = 91 then Some (Between, LBracket # toks)
      else if c = 93 then Some (Between, RBracket # toks)
      else if c = 58 then Some (Between, Colon # toks)
      else if c = 44 then Some (Between, Comma # toks)
      else if c = 34 then Some (InString [], toks)
      else if c = 45 \<or> is_digit c then Some (InNumber [c], toks)
      else if 97 \<le> c \<and> c \<le> 122 then Some (InWord [c], toks)
      else None)"

definition escape_char :: "nat \<Rightarrow> nat option" where
  "escape_char c =
     (if c = 34 \<or> c = 92 \<or> c = 47 then Some c
      else if c = 98 then Some 8
      else if c = 102 then Some 12
      else if c = 110 then Some 10
      else if c = 114 then Some 13
      else if c = 116 then Some 9
      else None)"

fun lex_char :: "lexing \<times> token list \<Rightarrow> nat \<Rightarrow> (lexing \<times> token list) option" where
  "lex_char (Between, toks) c = between_char toks c"
| "lex_char (InString acc, toks) c =
     (if c = 34 then Some (Between, TString acc # toks)
      else if c = 92 then Some (InEscape acc, toks)
      else if c < 32 then None
      else Some (InString (acc @ [c]), toks))"
| "lex_char (InEscape acc, toks) c =
     (if c = 117 then Some (InUnicode acc [], toks)
      else case escape_char c of
             None \<Rightarrow> None
           | Some e \<Rightarrow> Some (InString (acc @ [e]), toks))"
| "lex_char (InUnicode acc hs, toks) c =
     (case hex_value c of
        None \<Rightarrow> None
      | Some h \<Rightarrow>
          if length hs = 3
          then Some (InString (acc @ [foldl (\<lambda>a d. 16 * a + d) 0 (hs @ [h])]), toks)
          else Some (InUnicode acc (hs @ [h]), toks))"
| "lex_char (InNumber acc, toks) c =
     (if is_digit c \<or> c = 43 \<or> c = 45 \<or> c = 46 \<or> c = 101 \<or> c = 69
      then Some (InNumber (acc @ [c]), toks)
      else between_char (TNumber acc # toks) c)"
| "lex_char (InWord acc, toks) c =
     (if 97 \<le> c \<and> c \<le> 122 then Some (InWord (acc @ [c]), toks)
      else between_char (TWord acc # toks) c)"

fun lex_from :: "lexing \<times> token list \<Rightarrow> jsstring \<Rightarrow> token list option" where
  "lex_from (Between, toks) [] = Some (rev toks)"
| "lex_from (InNumber acc, toks) [] = Some (rev (TNumber acc # toks))"
| "lex_from (InWord acc, toks) [] = Some (rev (TWord acc # toks))"
| "lex_from (l, toks) [] = None"
| "lex_from st (c # cs) =
     (case lex_char st c of None \<Rightarrow> None | Some st' \<Rightarrow> lex_from st' cs)"

text \<open>
  The value of a number literal, \<open>None\<close> when the text is no number of the grammar:
  an optional minus, the digits of the integer part (no leading zero before another
  digit), an optional fraction and an optional exponent.
\<close>

definition digits_value :: "jsstring \<Rightarrow> nat" where
  "digits_value ds = foldl (\<lambda>a d. 10 * a + (d - 48)) 0 ds"

definition number_value :: "jsstring \<Rightarrow> rat option" where
  "number_value s =
     (let neg = (s \<noteq> [] \<and> hd s = 45);
          r1 = (if neg then tl s else s);
          ds = takeWhile is_digit r1;
          r2 = dropWhile is_digit r1;
          has_frac = (r2 \<noteq> [] \<and> hd r2 = 46);
          fs = (if has_frac then takeWhile is_digit (tl r2) else []);
          r3 = (if has_frac then dropWhile is_digit (tl r2) else r2);
          has_exp = (r3 \<noteq> [] \<and> (hd r3 = 101 \<or> hd r3 = 69));
          r4 = (if has_exp then tl r3 else r3);
          eneg = (has_exp \<and> r4 \<noteq> [] \<and> hd r4 = 45);
          r5 = (if has_exp \<and> r4 \<noteq> [] \<and> (hd r4 = 45 \<or> hd r4 = 43) then tl r4 else r4);
          es = (if has_exp then r5 else []);
          e = (if eneg then - int (digits_value es) else int (digits_value es)) - int (length fs);
          m = of_nat (digits_value (ds @ fs)) * (if e < 0 then 1 / 10 ^ nat (- e) else 10 ^ nat e)
      in if ds = [] \<or> (hd ds = 48 \<and> length ds > 1) then None
         else if has_frac \<and> fs = [] then None
         else if has_exp \<and> (es = [] \<or> \<not> list_all is_digit es) then None
         else if \<not> has_exp \<and> r3 \<noteq> [] then None
         else Some (if neg then - m else m))"

text \<open>
  The parser: the stack holds the open arrays (their elements so far, last first) and
  objects (their members so far, and the name that waits for its value); \<open>expecting\<close>
  says which tokens may come next.
\<close>

datatype frame =
    FArray "json list"
  | FObject "(jsstring \<times> json) list"
  | FMember "(jsstring \<times> json) list" jsstring

datatype expecting = Value | ValueOrClose | KeyOrClose | Key | ColonAfterKey | CommaOrClose | Finished json

fun put_member :: "jsstring \<Rightarrow> json \<Rightarrow> (jsstring \<times> json) list \<Rightarrow> (jsstring \<times> json) list" where
  "put_member k v [] = [(k, v)]"
| "put_member k v ((k', v') # ms) =
     (if k = k' then (k, v) # ms else (k', v') # put_member k v ms)"

fun reduce_value :: "json \<Rightarrow> frame list \<Rightarrow> (expecting \<times> frame list) option" where
  "reduce_value v [] = Some (Finished v, [])"
| "reduce_value v (FArray es # st) = Some (CommaOrClose, FArray (v # es) # st)"
| "reduce_value v (FMember ms k # st) = Some (CommaOrClose, FObject (put_member k v ms) # st)"
| "reduce_value v (FObject ms # st) = None"

definition scalar :: "token \<Rightarrow> json option" where
  "scalar t =
     (case t of
        TString s \<Rightarrow> Some (JString s)
      | TNumber s \<Rightarrow> map_option (\<lambda>q. JNumber (Finite q)) (number_value s)
      | TWord w \<Rightarrow>
          if w = str ''true'' then Some (JBool True)
          else if w = str ''false'' then Some (JBool False)
          else if w = str ''null'' then Some JNull
          else None
      | _ \<Rightarrow> None)"

definition start_value :: "token \<Rightarrow> frame list \<Rightarrow> (expecting \<times> frame list) option" where
  "start_value t st =
     (case t of
        LBracket \<Rightarrow> Some (ValueOrClose, FArray [] # st)
      | LBrace \<Rightarrow> Some (KeyOrClose, FObject [] # st)
      | _ \<Rightarrow> (case scalar t of None \<Rightarrow> None | Some v \<Rightarrow> reduce_value v st))"

definition start_key :: "token \<Rightarrow> frame list \<Rightarrow> (expecting \<times> frame list) option" where
  "start_key t st =
     (case (t, st) of
        (TString k, FObject ms # st') \<Rightarrow> Some (ColonAfterKey, FMember ms k # st')
      | _ \<Rightarrow> None)"

definition close :: "token \<Rightarrow> frame list \<Rightarrow> (expecting \<times> frame list) option" where
  "close t st =
     (case (t, st) of
        (RBracket, FArray es # st') \<Rightarrow> reduce_value (JArray (rev es)) st'
      | (RBrace, FObject ms # st') \<Rightarrow> reduce_value (JObject ms) st'
      | _ \<Rightarrow> None)"

fun parse_token :: "expecting \<times> frame list \<Rightarrow> token \<Rightarrow> (expecting \<times> frame list) option" where
  "parse_token (Value, st) t = start_value t st"
| "parse_token (ValueOrClose, st) t = (if t = RBracket then close t st else start_value t st)"
| "parse_token (KeyOrClose, st) t = (if t = RBrace then close t st else start_key t st)"
| "parse_token (Key, st) t = start_key t st"
| "parse_token (ColonAfterKey, st) t = (if t = Colon then Some (Value, st) else None)"
| "parse_token (CommaOrClose, st) t =
     (if t = Comma
      then (case st of
              FArray es # st' \<Rightarrow> Some (Value, st)
            | FObject ms # st' \<Rightarrow> Some (Key, st)
            | _ \<Rightarrow> None)
      else close t st)"
| "parse_token (Finished v, st) t = None"

fun parse_from :: "expecting \<times> frame list \<Rightarrow> token list \<Rightarrow> json option" where
  "parse_from (Finished v, st) [] = Some v"
| "parse_from (e, st) [] = None"
| "parse_from s (t # ts) =
     (case parse_token s t of None \<Rightarrow> None | Some s' \<Rightarrow> parse_from s' ts)"

definition parse_text :: "jsstring \<Rightarrow> json option" where
  "parse_text text =
     (case lex_from (Between, []) text of
        None \<Rightarrow> None
      | Some toks \<Rightarrow> parse_from (Value, []) toks)"

section \<open>Thrown values, responses and the platform\<close>

text \<open>
  A thrown value, as far as the \<open>catch\<close> blocks look at it: whether it is an instance of
  \<open>Error\<close> and of the SDK's \<open>GoogleGenerativeAIResponseError\<close>, the name of its
  constructor, its \<open>message\<close> (\<open>None\<close> when it has none) and the safety ratings of its
  \<open>response.promptFeedback\<close> (empty when there are none).
\<close>

record SafetyRating =
  category :: jsstring
  probability :: jsstring

record thrown =
  instanceof_Error :: bool
  instanceof_ResponseError :: bool
  constructor_name :: jsstring
  message :: "jsstring option"
  safetyRatings :: "SafetyRating list"

text \<open>What \<open>NextResponse.json(value, {status})\<close> is given.\<close>

record response =
  status :: nat
  body :: json

text \<open>
  One call of the model gateway: \<open>getGenerativeModel({model})\<close>, then \<open>generateContent\<close>
  with the prompt and, in the topic route only, a generation configuration with a
  temperature.
\<close>

record gateway_call =
  model :: jsstring
  prompt :: jsstring
  temperature :: "rat option"

text \<open>
  What the routes take from outside the repository: \<open>JSON.parse\<close> (\<open>Inl\<close> is the value
  it throws), the conversion of a value that is not a string to a string in a template
  literal (which may throw), the gateway (\<open>generateContent\<close> followed by
  \<open>response.text()\<close>: the raw text, or the value thrown), the environment variable
  \<open>GOOGLE_GEMINI_MODEL\<close>, and the message of the TypeError the engine throws when a
  property of \<open>null\<close> is read or \<open>in\<close> is applied to a primitive value (the engine
  words it by the place; one text stands for all of them, and the routes only pass it
  on).
\<close>

record platform =
  JSON_parse :: "jsstring \<Rightarrow> thrown + json"
  ToString :: "json \<Rightarrow> thrown + jsstring"
  generateContent :: "gateway_call \<Rightarrow> thrown + jsstring"
  GOOGLE_GEMINI_MODEL :: "jsstring option"
  TypeError_message :: jsstring

definition TypeError :: "platform \<Rightarrow> thrown" where
  "TypeError P =
     \<lparr>instanceof_Error = True, instanceof_ResponseError = False,
      constructor_name = str ''TypeError'', message = Some (TypeError_message P),
      safetyRatings = []\<rparr>"

text \<open>
  \<^verbatim>\<open>process.env.GOOGLE_GEMINI_MODEL ? process.env.GOOGLE_GEMINI_MODEL : "gemini-1.5-pro"\<close>:
  an unset or empty variable gives the default.
\<close>

definition model_name :: "platform \<Rightarrow> jsstring" where
  "model_name P =
     (case GOOGLE_GEMINI_MODEL P of
        None \<Rightarrow> str ''gemini-1.5-pro''
      | Some m \<Rightarrow> if m = [] then str ''gemini-1.5-pro'' else m)"

text \<open>A value in a template literal: \<open>undefined\<close> and strings are fixed by the language.\<close>

fun interpolate :: "platform \<Rightarrow> json option \<Rightarrow> thrown + jsstring" where
  "interpolate P None = Inr (str ''undefined'')"
| "interpolate P (Some (JString s)) = Inr s"
| "interpolate P (Some v) = ToString P v"

text \<open>
  \<^verbatim>\<open>error.message && error.message.includes("API key not valid")\<close>, and the members
  that carry a message: a member whose value is \<open>undefined\<close> is not in the JSON body.
\<close>

definition invalid_api_key :: "thrown \<Rightarrow> bool" where
  "invalid_api_key error =
     (case message error of
        None \<Rightarrow> False
      | Some m \<Rightarrow> m \<noteq> [] \<and> includes_str m (str ''API key not valid''))"

definition optional_member :: "string \<Rightarrow> jsstring option \<Rightarrow> (jsstring \<times> json) list" where
  "optional_member k v = (case v of None \<Rightarrow> [] | Some m \<Rightarrow> [(str k, JString m)])"

definition server_configuration_error :: json where
  "server_configuration_error =
     JObject [(str ''error'', JString (str ''Server configuration error: Invalid API key.''))]"

definition unexpected_error :: "thrown \<Rightarrow> json" where
  "unexpected_error error =
     JObject ((str ''error'', JString (str ''An unexpected error occurred.''))
              # optional_member ''details'' (message error))"

definition missing_parameters :: response where
  "missing_parameters =
     \<lparr>status = 400,
      body = JObject [(str ''error'', JString (str ''Missing required parameters''))]\<rparr>"

section \<open>The prompts\<close>

text \<open>The three template literals, with the strings that stand in their holes.\<close>

definition topic_prompt :: "jsstring \<Rightarrow> jsstring" where
  \<open>topic_prompt difficulty =
     str ''
      Return a random quiz topic (max topic words: 5) with the following difficulty level: ''
     @ difficulty @
     str ''.

      The entire output must be a valid JSON object. Do not include any text outside of the JSON object.
      Ensure the JSON is well-formed and can be directly parsed.

      Example format for easy level:
      { "topic": "basic multiplication" }
      { "topic": "identifying shapes" }
      { "topic": "animal sounds" }

      Example format for college level:
      { "topic": "postmodernism" }
      { "topic": "quantum mechanics" }
      { "topic": "ethical dilemmas" }
    ''\<close>

definition quiz_prompt :: "jsstring \<Rightarrow> jsstring \<Rightarrow> jsstring" where
  \<open>quiz_prompt topic difficulty =
     str ''
      Generate 3 multiple-choice questions about the topic: "''
     @ topic @
     str ''".
      The difficulty level should be: "''
     @ difficulty @
     str ''".
      Each question must have:
      - "questionText": A string for the question itself.
      - "options": An array of 4 distinct string options.
      - "correctAnswer": A string that exactly matches one of the provided options.
      - "explanation": A string explaining why the answer is correct.

      The entire output must be a valid JSON array of question objects. Do not include any text outside of the JSON array.
      Ensure the JSON is well-formed and can be directly parsed.

      Example format:
      [
        {
          "questionText": "What is the capital of France?",
          "options": ["Berlin", "Madrid", "Paris", "Rome"],
          "correctAnswer": "Paris",
          "explanation": "Paris is the capital and most populous city of France."
        },
        {
          "questionText": "What is 2 + 2?",
          "options": ["3", "4", "5", "6"],
          "correctAnswer": "4",
          "explanation": "The sum of 2 and 2 is 4."
        }
      ]
    ''\<close>

text \<open>
  The chat prompt: the head with the question, one line for each message of the
  history (\<open>forEach\<close>, in order), the tail with the latest message.
\<close>

definition chat_prompt_head :: "jsstring \<Rightarrow> jsstring \<Rightarrow> jsstring \<Rightarrow> jsstring" where
  \<open>chat_prompt_head qText qExplanation qAnswer =
     str ''You are a helpful AI assistant and tutor. The user is asking a follow-up question about an explanation to a quiz question.
The original quiz question was: "''
     @ qText @
     str ''"
The provided explanation was: "''
     @ qExplanation @
     str ''"
The correct answer was: "''
     @ qAnswer @
     str ''"

Here is the conversation history so far:
''\<close>

definition chat_prompt_tail :: "jsstring \<Rightarrow> jsstring" where
  \<open>chat_prompt_tail userMessage =
     str ''
The user's latest message is: "''
     @ userMessage @
     str ''"

Based on all this context, please provide a concise and helpful response to the user's latest message. 
If the user is challenging the explanation, review it carefully against the question and correct answer.
If they are asking for clarification or more details, provide it.
If the query seems unrelated to the question or explanation, gently guide them back or state that you can only discuss the quiz item.
Your response should be directly addressing the user's latest message.
''\<close>

section \<open>The generate-quiz route\<close>

text \<open>
  The callback of \<open>questions.some\<close>: whether a member is missing or falsy in \<open>q\<close>.
  \<open>None\<close> is the TypeError of reading a property of \<open>null\<close>. \<open>some\<close> calls it on the
  elements in order and stops at the first one that answers true.
\<close>

fun incomplete :: "json \<Rightarrow> bool option" where
  "incomplete JNull = None"
| "incomplete q =
     Some (\<not> truthy (get_property q ''questionText'') \<or> \<not> truthy (get_property q ''options'') \<or>
           \<not> truthy (get_property q ''correctAnswer'') \<or> \<not> truthy (get_property q ''explanation''))"

fun some_incomplete :: "json list \<Rightarrow> bool option" where
  "some_incomplete [] = Some False"
| "some_incomplete (q # qs) =
     (case incomplete q of
        None \<Rightarrow> None
      | Some True \<Rightarrow> Some True
      | Some False \<Rightarrow> some_incomplete qs)"

definition invalid_question_type :: response where
  "invalid_question_type =
     \<lparr>status = 400,
      body = JObject [(str ''error'',
        JString (str ''Invalid question type. Only 'Multiple Choice' is supported for now.''))]\<rparr>"

definition quiz_parse_failure :: "jsstring \<Rightarrow> response" where
  "quiz_parse_failure text =
     \<lparr>status = 500,
      body = JObject
        [(str ''error'', JString (str
           ''Failed to parse quiz data from AI response. The response was not valid JSON.'')),
         (str ''rawResponse'', JString text)]\<rparr>"

definition quiz_structure_failure :: "json \<Rightarrow> response" where
  "quiz_structure_failure questions =
     \<lparr>status = 500,
      body = JObject
        [(str ''error'', JString (str ''AI response did not follow the expected JSON structure.'')),
         (str ''data'', questions)]\<rparr>"

text \<open>
  From the model's text to the response: the inner \<open>try\<close> around the cleaning and
  \<open>JSON.parse\<close> (both branches of its \<open>catch\<close> return the same response), then the
  check of the structure. \<open>Inl\<close> is a value thrown to the outer \<open>catch\<close>.
\<close>

definition quiz_reply :: "platform \<Rightarrow> jsstring \<Rightarrow> thrown + response" where
  "quiz_reply P text =
     (case JSON_parse P (cleanedText text) of
        Inl error \<Rightarrow> Inr (quiz_parse_failure text)
      | Inr questions \<Rightarrow>
          (case questions of
             JArray qs \<Rightarrow>
               (case some_incomplete qs of
                  None \<Rightarrow> Inl (TypeError P)
                | Some True \<Rightarrow> Inr (quiz_structure_failure questions)
                | Some False \<Rightarrow> Inr \<lparr>status = 200, body = questions\<rparr>)
           | _ \<Rightarrow> Inr (quiz_structure_failure questions)))"

text \<open>
  The body of the outer \<open>try\<close>. The argument is what \<open>request.json()\<close> gives: the body, or
  the value it throws. The result is the response returned or the value thrown, with
  the calls made to the gateway.
\<close>

definition generate_quiz_try ::
  "platform \<Rightarrow> thrown + json \<Rightarrow> (thrown + response) \<times> gateway_call list" where
  "generate_quiz_try P request_json =
     (case request_json of
        Inl error \<Rightarrow> (Inl error, [])
      | Inr JNull \<Rightarrow> (Inl (TypeError P), [])
      | Inr b \<Rightarrow>
          (let topic = get_property b ''topic'';
               difficulty = get_property b ''difficulty'';
               questionType = get_property b ''questionType''
           in if \<not> truthy topic \<or> \<not> truthy difficulty \<or> \<not> truthy questionType
              then (Inr missing_parameters, [])
              else if questionType \<noteq> Some (JString (str ''Multiple Choice''))
              then (Inr invalid_question_type, [])
              else
                (case interpolate P topic of
                   Inl error \<Rightarrow> (Inl error, [])
                 | Inr t \<Rightarrow>
                     (case interpolate P difficulty of
                        Inl error \<Rightarrow> (Inl error, [])
                      | Inr d \<Rightarrow>
                          (let call = \<lparr>model = model_name P, prompt = quiz_prompt t d,
                                       temperature = None\<rparr>
                           in case generateContent P call of
                                Inl error \<Rightarrow> (Inl error, [call])
                              | Inr text \<Rightarrow> (quiz_reply P text, [call]))))))"

definition generate_quiz_catch :: "thrown \<Rightarrow> response" where
  "generate_quiz_catch error =
     (if instanceof_Error error
      then if invalid_api_key error
           then \<lparr>status = 500, body = server_configuration_error\<rparr>
           else \<lparr>status = 500, body = unexpected_error error\<rparr>
      else \<lparr>status = 401, body = server_configuration_error\<rparr>)"

definition generate_quiz_POST ::
  "platform \<Rightarrow> thrown + json \<Rightarrow> response \<times> gateway_call list" where
  "generate_quiz_POST P request_json =
     (case generate_quiz_try P request_json of
        (Inl error, calls) \<Rightarrow> (generate_quiz_catch error, calls)
      | (Inr r, calls) \<Rightarrow> (r, calls))"

section \<open>The get-random-topic route\<close>

text \<open>
  \<open>"topic" in data\<close>: a TypeError (\<open>None\<close>) on a primitive value, false on an array, and
  on an object whether it has the member.
\<close>

fun has_property :: "json \<Rightarrow> string \<Rightarrow> bool option" where
  "has_property (JObject ms) k = Some (map_of ms (str k) \<noteq> None)"
| "has_property (JArray xs) k = Some False"
| "has_property v k = None"

fun is_string :: "json option \<Rightarrow> bool" where
  "is_string (Some (JString s)) = True"
| "is_string v = False"

text \<open>
  The parse failure reports the raw text also as \<open>cleanedTextAttemptedToParse\<close>
  (\<open>cleaned\<close> is local to the \<open>try\<close>), and the message of the value thrown.
\<close>

definition topic_parse_failure :: "jsstring \<Rightarrow> thrown \<Rightarrow> response" where
  "topic_parse_failure text e =
     \<lparr>status = 500,
      body = JObject
        ([(str ''error'', JString (str
            ''Failed to parse quiz data from AI response. The response was not valid JSON.'')),
          (str ''rawResponseFromLLM'', JString text),
          (str ''cleanedTextAttemptedToParse'', JString text)]
         @ optional_member ''parseErrorDetails'' (message e))\<rparr>"

definition topic_shape_failure :: "jsstring \<Rightarrow> json \<Rightarrow> response" where
  "topic_shape_failure text data =
     \<lparr>status = 400,
      body = JObject
        [(str ''error'', JString (str
            ''Invalid response from LLM. Expected a JSON object with a string 'topic' key.'')),
         (str ''rawResponseFromLLM'', JString text),
         (str ''parsedData'', data)]\<rparr>"

definition topic_reply :: "platform \<Rightarrow> jsstring \<Rightarrow> thrown + response" where
  "topic_reply P text =
     (case JSON_parse P (cleanedText text) of
        Inl e \<Rightarrow> Inr (topic_parse_failure text e)
      | Inr data \<Rightarrow>
          if \<not> truthy (Some data) then Inr (topic_shape_failure text data)
          else
            (case has_property data ''topic'' of
               None \<Rightarrow> Inl (TypeError P)
             | Some False \<Rightarrow> Inr (topic_shape_failure text data)
             | Some True \<Rightarrow>
                 if \<not> is_string (get_property data ''topic'')
                 then Inr (topic_shape_failure text data)
                 else Inr \<lparr>status = 200, body = data\<rparr>))"

definition get_random_topic_try ::
  "platform \<Rightarrow> thrown + json \<Rightarrow> (thrown + response) \<times> gateway_call list" where
  "get_random_topic_try P request_json =
     (case request_json of
        Inl error \<Rightarrow> (Inl error, [])
      | Inr JNull \<Rightarrow> (Inl (TypeError P), [])
      | Inr b \<Rightarrow>
          (let difficulty = get_property b ''difficulty''
           in if \<not> truthy difficulty then (Inr missing_parameters, [])
              else
                (case interpolate P difficulty of
                   Inl error \<Rightarrow> (Inl error, [])
                 | Inr d \<Rightarrow>
                     (let call = \<lparr>model = model_name P, prompt = topic_prompt d,
                                  temperature = Some (11 / 10)\<rparr>
                      in case generateContent P call of
                           Inl error \<Rightarrow> (Inl error, [call])
                         | Inr text \<Rightarrow> (topic_reply P text, [call])))))"

definition get_random_topic_catch :: "thrown \<Rightarrow> response" where
  "get_random_topic_catch error =
     (if invalid_api_key error
      then \<lparr>status = 500, body = server_configuration_error\<rparr>
      else \<lparr>status = 500, body = unexpected_error error\<rparr>)"

definition get_random_topic_POST ::
  "platform \<Rightarrow> thrown + json \<Rightarrow> response \<times> gateway_call list" where
  "get_random_topic_POST P request_json =
     (case get_random_topic_try P request_json of
        (Inl error, calls) \<Rightarrow> (get_random_topic_catch error, calls)
      | (Inr r, calls) \<Rightarrow> (r, calls))"

section \<open>The chat-explanation route\<close>

text \<open>The three validations, in the order of the source.\<close>

definition invalid_question :: "json option \<Rightarrow> bool" where
  "invalid_question question =
     (case question of
        None \<Rightarrow> True
      | Some q \<Rightarrow>
          \<not> truthy (Some q) \<or> \<not> truthy (get_property q ''questionText'') \<or>
          \<not> truthy (get_property q ''explanation''))"

definition invalid_userMessage :: "json option \<Rightarrow> bool" where
  "invalid_userMessage userMessage =
     (\<not> truthy userMessage \<or>
      (case userMessage of Some (JString s) \<Rightarrow> trim s = [] | _ \<Rightarrow> True))"

definition invalid_chatHistory :: "json option \<Rightarrow> bool" where
  "invalid_chatHistory chatHistory =
     (\<not> truthy chatHistory \<or>
      (case chatHistory of Some (JArray msgs) \<Rightarrow> False | _ \<Rightarrow> True))"

definition chat_rejection :: "string \<Rightarrow> response" where
  "chat_rejection text =
     \<lparr>status = 400, body = JObject [(str ''error'', JString (str text))]\<rparr>"

text \<open>One message of the history as a line of the prompt, and all of them in order.\<close>

definition history_line :: "platform \<Rightarrow> json \<Rightarrow> thrown + jsstring" where
  "history_line P msg =
     (case msg of
        JNull \<Rightarrow> Inl (TypeError P)
      | _ \<Rightarrow>
          (case interpolate P (get_property msg ''text'') of
             Inl error \<Rightarrow> Inl error
           | Inr t \<Rightarrow>
               Inr ((if get_property msg ''sender'' = Some (JString (str ''user''))
                     then str ''User'' else str ''AI'') @ str '': '' @ t @ [10])))"

fun history_lines :: "platform \<Rightarrow> json list \<Rightarrow> thrown + jsstring" where
  "history_lines P [] = Inr []"
| "history_lines P (msg # msgs) =
     (case history_line P msg of
        Inl error \<Rightarrow> Inl error
      | Inr l \<Rightarrow>
          (case history_lines P msgs of
             Inl error \<Rightarrow> Inl error
           | Inr ls \<Rightarrow> Inr (l @ ls)))"

definition chat_prompt :: "platform \<Rightarrow> json \<Rightarrow> json option \<Rightarrow> json list \<Rightarrow> thrown + jsstring" where
  "chat_prompt P q userMessage msgs =
     (case interpolate P (get_property q ''questionText'') of
        Inl error \<Rightarrow> Inl error
      | Inr qText \<Rightarrow>
     (case interpolate P (get_property q ''explanation'') of
        Inl error \<Rightarrow> Inl error
      | Inr qExplanation \<Rightarrow>
     (case interpolate P (get_property q ''correctAnswer'') of
        Inl error \<Rightarrow> Inl error
      | Inr qAnswer \<Rightarrow>
     (case history_lines P msgs of
        Inl error \<Rightarrow> Inl error
      | Inr ls \<Rightarrow>
     (case interpolate P userMessage of
        Inl error \<Rightarrow> Inl error
      | Inr u \<Rightarrow>
          Inr (chat_prompt_head qText qExplanation qAnswer @ ls @ chat_prompt_tail u))))))"

text \<open>
  The body of the \<open>try\<close>. After the three validations \<open>question\<close> is a value and
  \<open>chatHistory\<close> an array, so the last case of the inner \<open>case\<close> does not occur; at
  most one call is made to the gateway.
\<close>

definition chat_explanation_try ::
  "platform \<Rightarrow> thrown + json \<Rightarrow> (thrown + response) \<times> gateway_call list" where
  "chat_explanation_try P request_json =
     (case request_json of
        Inl error \<Rightarrow> (Inl error, [])
      | Inr JNull \<Rightarrow> (Inl (TypeError P), [])
      | Inr b \<Rightarrow>
          (let question = get_property b ''question'';
               userMessage = get_property b ''userMessage'';
               chatHistory = get_property b ''chatHistory''
           in if invalid_question question
              then (Inr (chat_rejection ''Missing or invalid 'question' object in request body.''), [])
              else if invalid_userMessage userMessage
              then (Inr (chat_rejection ''Missing or invalid 'userMessage' in request body.''), [])
              else if invalid_chatHistory chatHistory
              then (Inr (chat_rejection
                           ''Missing or invalid 'chatHistory' array in request body.''), [])
              else
                (case (question, chatHistory) of
                   (Some q, Some (JArray msgs)) \<Rightarrow>
                     (case chat_prompt P q userMessage msgs of
                        Inl error \<Rightarrow> (Inl error, [])
                      | Inr p \<Rightarrow>
                          (let call = \<lparr>model = model_name P, prompt = p, temperature = None\<rparr>
                           in case generateContent P call of
                                Inl error \<Rightarrow> (Inl error, [call])
                              | Inr aiTextResponse \<Rightarrow>
                                  (Inr \<lparr>status = 200,
                                        body = JObject [(str ''aiMessage'',
                                                         JString aiTextResponse)]\<rparr>, [call])))
                 | _ \<Rightarrow> (Inl (TypeError P), []))))"

text \<open>
  The \<open>catch\<close> of the chat route: the message for a blocked reply names the categories
  of the safety ratings, joined by a comma and a space.
\<close>

fun join :: "jsstring \<Rightarrow> jsstring list \<Rightarrow> jsstring" where
  "join sep [] = []"
| "join sep [x] = x"
| "join sep (x # y # ys) = x @ sep @ join sep (y # ys)"

definition rating_json :: "SafetyRating \<Rightarrow> json" where
  "rating_json r =
     JObject [(str ''category'', JString (category r)),
              (str ''probability'', JString (probability r))]"

definition content_restriction :: "SafetyRating list \<Rightarrow> response" where
  "content_restriction ratings =
     \<lparr>status = 400,
      body = JObject
        [(str ''error'', JString
           (str ''The AI could not generate a response due to content restrictions.'' @
            (if ratings \<noteq> []
             then str '' Blocked due to: '' @ join (str '', '') (map category ratings) @ str ''.''
             else []))),
         (str ''details'', JArray (map rating_json ratings))]\<rparr>"

definition chat_explanation_catch :: "thrown \<Rightarrow> response" where
  "chat_explanation_catch error =
     (if instanceof_ResponseError error
      then if invalid_api_key error
           then \<lparr>status = 500, body = server_configuration_error\<rparr>
           else if constructor_name error = str ''GoogleGenerativeAIResponseError''
           then content_restriction (safetyRatings error)
           else \<lparr>status = 500,
                 body = JObject
                   ((str ''error'', JString (str
                       ''An unexpected error occurred while processing the chat.''))
                    # optional_member ''details'' (message error))\<rparr>
      else \<lparr>status = 401, body = server_configuration_error\<rparr>)"

definition chat_explanation_POST ::
  "platform \<Rightarrow> thrown + json \<Rightarrow> response \<times> gateway_call list" where
  "chat_explanation_POST P request_json =
     (case chat_explanation_try P request_json of
        (Inl error, calls) \<Rightarrow> (chat_explanation_catch error, calls)
      | (Inr r, calls) \<Rightarrow> (r, calls))"

section \<open>The quiz page: per-question answer state\<close>

text \<open>
  \<open>page.tsx\<close>: a question as the page holds it, \<open>QuizQuestion\<close> extended with the
  selected answer (\<open>null\<close> is \<open>None\<close>) and the checked flag. \<open>quizData\<close> is the list of
  questions or \<open>null\<close>.
\<close>

record QuizQuestionWithState =
  questionText :: jsstring
  options :: "jsstring list"
  correctAnswer :: jsstring
  explanation :: jsstring
  selectedAnswer :: "jsstring option"
  isChecked :: bool

text \<open>
  \<open>handleOptionSelect\<close> and \<open>handleCheckAnswer\<close> map over \<open>quizData\<close> with the index of
  each question and store the new list; with \<open>quizData\<close> null they do nothing. A
  \<open>questionIndex\<close> that is no index of the list matches no question.
\<close>

definition handleOptionSelect ::
  "QuizQuestionWithState list option \<Rightarrow> nat \<Rightarrow> jsstring \<Rightarrow> QuizQuestionWithState list option" where
  "handleOptionSelect quizData questionIndex selectedOption =
     (case quizData of
        None \<Rightarrow> None
      | Some qs \<Rightarrow>
          Some (map (\<lambda>(qIndex, q).
                  if qIndex = questionIndex \<and> \<not> isChecked q
                  then q\<lparr>selectedAnswer := Some selectedOption\<rparr>
                  else q)
                (enumerate 0 qs)))"

definition handleCheckAnswer ::
  "QuizQuestionWithState list option \<Rightarrow> nat \<Rightarrow> QuizQuestionWithState list option" where
  "handleCheckAnswer quizData questionIndex =
     (case quizData of
        None \<Rightarrow> None
      | Some qs \<Rightarrow>
          Some (map (\<lambda>(qIndex, q).
                  if qIndex = questionIndex then q\<lparr>isChecked := True\<rparr> else q)
                (enumerate 0 qs)))"

text \<open>The clicks of a user on the displayed quiz, and the state after a sequence of them.\<close>

datatype click = OptionSelect nat jsstring | CheckAnswer nat

fun on_click :: "QuizQuestionWithState list option \<Rightarrow> click \<Rightarrow> QuizQuestionWithState list option" where
  "on_click quizData (OptionSelect i opt) = handleOptionSelect quizData i opt"
| "on_click quizData (CheckAnswer i) = handleCheckAnswer quizData i"

definition after_clicks ::
  "QuizQuestionWithState list option \<Rightarrow> click list \<Rightarrow> QuizQuestionWithState list option" where
  "after_clicks quizData clicks = foldl on_click quizData clicks"

section \<open>The words of the specification\<close>

text \<open>
  A value has all four fields of a question when it is an object with the four
  members, whatever their values.
\<close>

definition has_all_fields :: "json \<Rightarrow> bool" where
  "has_all_fields q \<longleftrightarrow>
     has_property q ''questionText'' = Some True \<and> has_property q ''options'' = Some True \<and>
     has_property q ''correctAnswer'' = Some True \<and> has_property q ''explanation'' = Some True"

text \<open>
  A body carries a value when one of its members has that value.
\<close>

definition carries :: "json \<Rightarrow> json \<Rightarrow> bool" where
  "carries b v = (case b of JObject ms \<Rightarrow> v \<in> snd ` set ms | _ \<Rightarrow> False)"

text \<open>
  A text wrapped in fence markers, with white space after the opening and before the
  closing marker, and a text that ends with another.
\<close>

definition fenced :: "jsstring \<Rightarrow> jsstring \<Rightarrow> jsstring \<Rightarrow> jsstring" where
  \<open>fenced ws1 t ws2 = str ''```json'' @ ws1 @ t @ ws2 @ str ''```''\<close>

definition endsWith :: "jsstring \<Rightarrow> jsstring \<Rightarrow> bool" where
  "endsWith s t \<longleftrightarrow> startsWith (rev s) (rev t)"

section \<open>A platform for the examples\<close>

text \<open>
  The errors of the examples: an \<open>Error\<close> of a class other than the SDK's response
  error (the SDK reports a rejected key as a \<open>GoogleGenerativeAIFetchError\<close>), and the
  \<open>SyntaxError\<close> of \<open>JSON.parse\<close>.
\<close>

definition Error_object :: "string \<Rightarrow> string \<Rightarrow> thrown" where
  "Error_object name m =
     \<lparr>instanceof_Error = True, instanceof_ResponseError = False,
      constructor_name = str name, message = Some (str m), safetyRatings = []\<rparr>"

definition ResponseError_object :: "string \<Rightarrow> thrown" where
  "ResponseError_object m =
     \<lparr>instanceof_Error = True, instanceof_ResponseError = True,
      constructor_name = str ''GoogleGenerativeAIResponseError'', message = Some (str m),
      safetyRatings = []\<rparr>"

definition syntax_error_message :: string where
  "syntax_error_message = ''Unexpected token in JSON''"

definition JSON_parse_text :: "jsstring \<Rightarrow> thrown + json" where
  "JSON_parse_text text =
     (case parse_text text of
        None \<Rightarrow> Inl (Error_object ''SyntaxError'' syntax_error_message)
      | Some v \<Rightarrow> Inr v)"

text \<open>
  The platform of the examples, for a given behaviour of the gateway: \<open>parse_text\<close> as
  \<open>JSON.parse\<close>, no model name in the environment. The examples put only strings in
  the prompts, so the conversion of other values is never asked; it is set to the text
  that a plain object gives.
\<close>

definition example_platform :: "(gateway_call \<Rightarrow> thrown + jsstring) \<Rightarrow> platform" where
  "example_platform gateway =
     \<lparr>JSON_parse = JSON_parse_text,
      ToString = (\<lambda>v. Inr (str ''[object Object]'')),
      generateContent = gateway,
      GOOGLE_GEMINI_MODEL = None,
      TypeError_message = str ''Cannot read properties of null''\<rparr>"

text \<open>The requests of the examples.\<close>

definition quiz_request :: "string \<Rightarrow> json" where
  "quiz_request questionType =
     JObject [(str ''topic'', JString (str ''World War II'')),
              (str ''difficulty'', JString (str ''High School'')),
              (str ''questionType'', JString (str questionType))]"

definition quiz_call :: gateway_call where
  "quiz_call =
     \<lparr>model = str ''gemini-1.5-pro'',
      prompt = quiz_prompt (str ''World War II'') (str ''High School''),
      temperature = None\<rparr>"

definition topic_request :: json where
  "topic_request = JObject [(str ''difficulty'', JString (str ''Elementary''))]"

definition topic_call :: gateway_call where
  "topic_call =
     \<lparr>model = str ''gemini-1.5-pro'', prompt = topic_prompt (str ''Elementary''),
      temperature = Some (11 / 10)\<rparr>"

definition chat_question :: json where
  "chat_question =
     JObject [(str ''questionText'', JString (str ''What is 2 + 2?'')),
              (str ''options'', JArray [JString (str ''3''), JString (str ''4''),
                                       JString (str ''5''), JString (str ''6'')]),
              (str ''correctAnswer'', JString (str ''4'')),
              (str ''explanation'', JString (str ''The sum of 2 and 2 is 4.''))]"

definition chat_history :: "json list" where
  "chat_history =
     [JObject [(str ''sender'', JString (str ''ai'')),
               (str ''text'', JString (str
                  ''Hello! How can I help you understand this explanation better?''))],
      JObject [(str ''sender'', JString (str ''user'')),
               (str ''text'', JString (str ''Why not 5?''))]]"

definition chat_request :: "json \<Rightarrow> json" where
  "chat_request chatHistory =
     JObject [(str ''question'', chat_question),
              (str ''userMessage'', JString (str ''Why not 5?'')),
              (str ''chatHistory'', chatHistory)]"

definition chat_call :: gateway_call where
  "chat_call =
     \<lparr>model = str ''gemini-1.5-pro'',
      prompt =
        chat_prompt_head (str ''What is 2 + 2?'') (str ''The sum of 2 and 2 is 4.'') (str ''4'') @
        str ''AI: Hello! How can I help you understand this explanation better?'' @ [10] @
        str ''User: Why not 5?'' @ [10] @
        chat_prompt_tail (str ''Why not 5?''),
      temperature = None\<rparr>"

text \<open>Replies of the model for the examples.\<close>

definition blank_question_reply :: jsstring where
  \<open>blank_question_reply = str
     ''[{"questionText": "", "options": ["a", "b", "c", "d"], "correctAnswer": "a", "explanation": "e"}]''\<close>

definition blank_question :: json where
  "blank_question =
     JObject [(str ''questionText'', JString []),
              (str ''options'', JArray [JString (str ''a''), JString (str ''b''),
                                       JString (str ''c''), JString (str ''d'')]),
              (str ''correctAnswer'', JString (str ''a'')),
              (str ''explanation'', JString (str ''e''))]"

definition odd_question_reply :: jsstring where
  \<open>odd_question_reply = str ''```json'' @ [10] @ str
     ''[{"questionText": "Q", "options": ["a", "b"], "correctAnswer": "z", "explanation": "e"}]''
     @ [10] @ str ''```''\<close>

definition odd_question :: json where
  "odd_question =
     JObject [(str ''questionText'', JString (str ''Q'')),
              (str ''options'', JArray [JString (str ''a''), JString (str ''b'')]),
              (str ''correctAnswer'', JString (str ''z'')),
              (str ''explanation'', JString (str ''e''))]"

definition malformed_reply :: jsstring where
  \<open>malformed_reply = str ''```json'' @ [10] @ str ''not json at all'' @ [10] @ str ''```''\<close>

definition ancient_rome_reply :: jsstring where
  \<open>ancient_rome_reply = str ''{"topic": "ancient rome"}''\<close>

definition no_topic_reply :: jsstring where
  \<open>no_topic_reply = str ''{"subject": "ancient rome"}''\<close>

text \<open>A displayed quiz of two questions, the first one answered and checked.\<close>

definition example_quiz :: "QuizQuestionWithState list" where
  "example_quiz =
     [\<lparr>questionText = str ''What is 2 + 2?'',
       options = [str ''3'', str ''4'', str ''5'', str ''6''],
       correctAnswer = str ''4'',
       explanation = str ''The sum of 2 and 2 is 4.'',
       selectedAnswer = Some (str ''5''),
       isChecked = True\<rparr>,
      \<lparr>questionText = str ''What is the capital of France?'',
       options = [str ''Berlin'', str ''Madrid'', str ''Paris'', str ''Rome''],
       correctAnswer = str ''Paris'',
       explanation = str ''Paris is the capital and most populous city of France.'',
       selectedAnswer = None,
       isChecked = False\<rparr>]"

section \<open>White space and fence stripping\<close>


lemma fence_not_space: "\<not> is_space 96"
  by (simp add: is_space_def)

lemma close_fence: "str ''```'' = [96, 96, 96]"
  by (simp add: str_def)

lemma open_fence: "str ''```json'' = [96, 96, 96, 106, 115, 111, 110]"
  by (simp add: str_def)

lemma dropWhile_spaces_fence:
  "list_all is_space ws \<Longrightarrow> dropWhile is_space (ws @ str ''```'') = str ''```''"
  by (induction ws) (simp_all add: close_fence fence_not_space)

lemma replace_trailing_fence_strips:
  assumes "list_all is_space ws" and "t = [] \<or> \<not> is_space (last t)"
  shows "replace_trailing_fence (t @ ws @ str ''```'') = t"
  using assms(2)
proof (induction t)
  case Nil
  have "ws @ str ''```'' \<noteq> []" by (simp add: close_fence)
  then obtain c cs where c: "ws @ str ''```'' = c # cs" by (cases "ws @ str ''```''") auto
  from dropWhile_spaces_fence [OF assms(1)] c show ?case by simp
next
  case (Cons c t)
  then have l: "\<not> is_space (last (c # t))" by simp
  have "last (c # t) \<in> set (c # t)" by (rule last_in_set) simp
  with l have d: "dropWhile is_space ((c # t) @ ws @ str ''```'') =
                  dropWhile is_space (c # t) @ ws @ str ''```''"
    by (intro dropWhile_append1) auto
  have "dropWhile is_space (c # t) \<noteq> []"
    using l \<open>last (c # t) \<in> set (c # t)\<close> by (auto simp del: last.simps)
  then have "length (dropWhile is_space (c # t) @ ws @ str ''```'') > 3"
    by (cases "dropWhile is_space (c # t)") (auto simp: close_fence)
  with d have n: "dropWhile is_space (c # t @ ws @ str ''```'') \<noteq> str ''```''"
    by (auto simp: close_fence)
  from Cons.prems have "t = [] \<or> \<not> is_space (last t)" by (cases t) auto
  from Cons.IH [OF this] n show ?case by simp
qed

lemma trim_last: "trim t \<noteq> [] \<Longrightarrow> \<not> is_space (last (trim t))"
proof -
  assume "trim t \<noteq> []"
  then have n: "dropWhile is_space (rev (dropWhile is_space t)) \<noteq> []"
    by (simp add: trim_def del: dropWhile_eq_Nil_conv)
  then have "\<not> is_space (hd (dropWhile is_space (rev (dropWhile is_space t))))"
    by (rule hd_dropWhile)
  with n show ?thesis by (simp add: trim_def last_rev del: dropWhile_eq_Nil_conv)
qed

lemma rev_takeWhile_split:
  "rev (dropWhile P (rev xs)) @ rev (takeWhile P (rev xs)) = xs"
proof -
  have "rev (dropWhile P (rev xs)) @ rev (takeWhile P (rev xs)) =
        rev (takeWhile P (rev xs) @ dropWhile P (rev xs))"
    by (simp only: rev_append)
  also have "\<dots> = rev (rev xs)" by (simp only: takeWhile_dropWhile_id)
  finally show ?thesis by simp
qed

lemma trim_decomposition:
  "t = takeWhile is_space t @ trim t @ rev (takeWhile is_space (rev (dropWhile is_space t)))"
proof -
  have "dropWhile is_space t =
        trim t @ rev (takeWhile is_space (rev (dropWhile is_space t)))"
    unfolding trim_def by (rule rev_takeWhile_split [symmetric])
  moreover have "t = takeWhile is_space t @ dropWhile is_space t" by simp
  ultimately show ?thesis by metis
qed

lemma cleanedText_fenced:
  assumes "list_all is_space ws1" and "list_all is_space ws2"
  shows "cleanedText (fenced ws1 t ws2) = trim t"
proof -
  let ?tail = "rev (takeWhile is_space (rev (dropWhile is_space t)))"
  have s: "startsWith (fenced ws1 t ws2) (str ''```json'')"
    by (simp add: fenced_def startsWith_def open_fence)
  have "drop 7 (fenced ws1 t ws2) = ws1 @ t @ ws2 @ str ''```''"
    by (simp add: fenced_def open_fence)
  with s have 1: "replace_leading_fence (fenced ws1 t ws2) =
                  dropWhile is_space (ws1 @ t @ ws2 @ str ''```'')"
    by (simp add: replace_leading_fence_def)
  from assms(1) have 2: "dropWhile is_space (ws1 @ t @ ws2 @ str ''```'') =
                         dropWhile is_space (t @ ws2 @ str ''```'')"
    by (simp add: list_all_iff)
  have 3: "\<exists>ws. list_all is_space ws \<and>
             dropWhile is_space (t @ ws2 @ str ''```'') = trim t @ ws @ str ''```''"
  proof (cases "dropWhile is_space t = []")
    case True
    then have "list_all is_space t" by (simp add: list_all_iff)
    with assms(2) have "list_all is_space (t @ ws2)" by simp
    from dropWhile_spaces_fence [OF this] True
    have "dropWhile is_space (t @ ws2 @ str ''```'') = trim t @ [] @ str ''```''"
      by (simp add: trim_def del: dropWhile_eq_Nil_conv)
    then show ?thesis by (intro exI [of _ "[]"]) simp
  next
    case False
    then obtain x where "x \<in> set t" "\<not> is_space x"
      by auto
    then have "dropWhile is_space (t @ ws2 @ str ''```'') =
               dropWhile is_space t @ ws2 @ str ''```''"
      by (rule dropWhile_append1)
    moreover have "dropWhile is_space t = trim t @ ?tail"
      unfolding trim_def by (rule rev_takeWhile_split [symmetric])
    ultimately have "dropWhile is_space (t @ ws2 @ str ''```'') =
               trim t @ (?tail @ ws2) @ str ''```''"
      by simp
    moreover have "list_all is_space (?tail @ ws2)"
      using assms(2) by (auto simp: list_all_iff dest: set_takeWhileD)
    ultimately show ?thesis by blast
  qed
  then obtain ws where 4: "list_all is_space ws"
    and 5: "dropWhile is_space (t @ ws2 @ str ''```'') = trim t @ ws @ str ''```''"
    by blast
  have 6: "trim t = [] \<or> \<not> is_space (last (trim t))"
    using trim_last by blast
  from replace_trailing_fence_strips [OF 4 6] 1 2 5 show ?thesis
    by (simp add: cleanedText_def)
qed

lemma endsWith_iff: "endsWith s t \<longleftrightarrow> (\<exists>p. s = p @ t)"
proof
  assume "endsWith s t"
  then have "take (length t) (rev s) = rev t"
    by (simp add: endsWith_def startsWith_def)
  then have "rev s = rev t @ drop (length t) (rev s)"
    by (metis append_take_drop_id)
  then have "rev (rev s) = rev (rev t @ drop (length t) (rev s))" by (rule arg_cong)
  then have "s = rev (drop (length t) (rev s)) @ t" by simp
  then show "\<exists>p. s = p @ t" ..
next
  assume "\<exists>p. s = p @ t"
  then show "endsWith s t" by (auto simp: endsWith_def startsWith_def)
qed

lemma replace_trailing_fence_id:
  "\<not> endsWith t (str ''```'') \<Longrightarrow> replace_trailing_fence t = t"
proof (induction t)
  case Nil
  show ?case by simp
next
  case (Cons c t)
  have "dropWhile is_space (c # t) \<noteq> str ''```''"
  proof
    assume "dropWhile is_space (c # t) = str ''```''"
    then have "c # t = takeWhile is_space (c # t) @ str ''```''"
      by (metis takeWhile_dropWhile_id)
    then have "endsWith (c # t) (str ''```'')" unfolding endsWith_iff ..
    with Cons.prems show False by simp
  qed
  moreover have "\<not> endsWith t (str ''```'')"
  proof
    assume "endsWith t (str ''```'')"
    then obtain p where "t = p @ str ''```''" unfolding endsWith_iff ..
    then have "c # t = (c # p) @ str ''```''" by simp
    then have "endsWith (c # t) (str ''```'')" unfolding endsWith_iff ..
    with Cons.prems show False by simp
  qed
  ultimately show ?case using Cons.IH by simp
qed

lemma cleanedText_id:
  "\<not> startsWith t (str ''```json'') \<Longrightarrow> \<not> endsWith t (str ''```'') \<Longrightarrow> cleanedText t = t"
  by (simp add: cleanedText_def replace_leading_fence_def replace_trailing_fence_id)

section \<open>The parser and the white space of JSON\<close>

lemma between_char_json_space:
  "is_json_space w \<Longrightarrow> between_char toks w = Some (Between, toks)"
  by (auto simp: is_json_space_def between_char_def)

lemma lex_from_leading_space:
  "list_all is_json_space ws \<Longrightarrow>
     lex_from (Between, toks) (ws @ cs) = lex_from (Between, toks) cs"
  by (induction ws) (simp_all add: between_char_json_space)

lemma lex_from_trailing_space1:
  assumes "is_json_space w"
  shows "lex_from st (cs @ [w]) = lex_from st cs"
proof (induction cs arbitrary: st)
  case Nil
  obtain l toks where st: "st = (l, toks)" by (cases st)
  from assms show ?case unfolding st
    by (cases l)
       (auto simp: is_json_space_def between_char_def escape_char_def hex_value_def is_digit_def)
next
  case (Cons c cs)
  then show ?case by (simp split: option.splits)
qed

lemma lex_from_trailing_space:
  "list_all is_json_space ws \<Longrightarrow> lex_from st (cs @ ws) = lex_from st cs"
proof (induction ws rule: rev_induct)
  case Nil
  show ?case by simp
next
  case (snoc w ws)
  then have "is_json_space w" "list_all is_json_space ws" by simp_all
  from lex_from_trailing_space1 [OF this(1), of st "cs @ ws"] snoc.IH [OF this(2)]
  show ?case by simp
qed

lemma parse_text_json_space:
  assumes "list_all is_json_space ws1" and "list_all is_json_space ws2"
  shows "parse_text (ws1 @ t @ ws2) = parse_text t"
proof -
  have "lex_from (Between, []) (ws1 @ t @ ws2) = lex_from (Between, []) (t @ ws2)"
    by (rule lex_from_leading_space [OF assms(1)])
  also have "\<dots> = lex_from (Between, []) t"
    by (rule lex_from_trailing_space [OF assms(2)])
  finally show ?thesis by (simp add: parse_text_def)
qed

lemma parse_text_trim:
  assumes "list_all is_json_space (takeWhile is_space t)"
    and "list_all is_json_space (takeWhile is_space (rev t))"
  shows "parse_text (trim t) = parse_text t"
proof -
  let ?u = "dropWhile is_space t"
  have "list_all is_json_space (takeWhile is_space (rev ?u))"
  proof (cases "?u = []")
    case True
    then show ?thesis by (simp del: dropWhile_eq_Nil_conv)
  next
    case False
    then have "\<not> is_space (hd ?u)" by (rule hd_dropWhile)
    moreover from False have "hd ?u \<in> set (rev ?u)" by simp
    ultimately have "takeWhile is_space (rev ?u @ rev (takeWhile is_space t)) =
                     takeWhile is_space (rev ?u)"
      by (intro takeWhile_append1) auto
    moreover have "rev t = rev ?u @ rev (takeWhile is_space t)"
      by (metis rev_append takeWhile_dropWhile_id)
    ultimately show ?thesis using assms(2) by simp
  qed
  then have "list_all is_json_space (rev (takeWhile is_space (rev ?u)))" by simp
  from parse_text_json_space [OF assms(1) this, of "trim t"] trim_decomposition [of t]
  show ?thesis by simp
qed

section \<open>The routes and the gateway\<close>

text \<open>
  A route that has called the gateway has called it once, and what it answers is
  decided by what the gateway gave: a value thrown goes to the \<open>catch\<close> of the route, a
  text to the part of the route that reads the reply.
\<close>

lemma generate_quiz_try_calls:
  assumes "snd (generate_quiz_try P request_json) = [c]"
  shows "generate_quiz_try P request_json =
           (case generateContent P c of
              Inl error \<Rightarrow> (Inl error, [c])
            | Inr text \<Rightarrow> (quiz_reply P text, [c]))"
  using assms
  by (auto simp: generate_quiz_try_def Let_def split: sum.splits json.splits if_splits)

lemma generate_quiz_POST_calls:
  "snd (generate_quiz_POST P request_json) = snd (generate_quiz_try P request_json)"
  by (simp add: generate_quiz_POST_def split: prod.splits sum.splits)

lemma get_random_topic_try_calls:
  assumes "snd (get_random_topic_try P request_json) = [c]"
  shows "get_random_topic_try P request_json =
           (case generateContent P c of
              Inl error \<Rightarrow> (Inl error, [c])
            | Inr text \<Rightarrow> (topic_reply P text, [c]))"
  using assms
  by (auto simp: get_random_topic_try_def Let_def split: sum.splits json.splits if_splits)

lemma get_random_topic_POST_calls:
  "snd (get_random_topic_POST P request_json) = snd (get_random_topic_try P request_json)"
  by (simp add: get_random_topic_POST_def split: prod.splits sum.splits)

lemma chat_explanation_try_calls:
  assumes "snd (chat_explanation_try P request_json) = [c]"
  shows "chat_explanation_try P request_json =
           (case generateContent P c of
              Inl error \<Rightarrow> (Inl error, [c])
            | Inr text \<Rightarrow>
                (Inr \<lparr>status = 200, body = JObject [(str ''aiMessage'', JString text)]\<rparr>, [c]))"
  using assms
  by (auto simp: chat_explanation_try_def chat_rejection_def Let_def
           split: sum.splits json.splits if_splits option.splits)

lemma chat_explanation_POST_calls:
  "snd (chat_explanation_POST P request_json) = snd (chat_explanation_try P request_json)"
  by (simp add: chat_explanation_POST_def split: prod.splits sum.splits)

lemma generate_quiz_POST_thrown:
  assumes "snd (generate_quiz_POST P request_json) = [c]" and "generateContent P c = Inl error"
  shows "fst (generate_quiz_POST P request_json) = generate_quiz_catch error"
proof -
  from assms(1) have "snd (generate_quiz_try P request_json) = [c]"
    by (simp add: generate_quiz_POST_calls)
  from generate_quiz_try_calls [OF this] assms(2)
  show ?thesis by (simp add: generate_quiz_POST_def)
qed

lemma get_random_topic_POST_thrown:
  assumes "snd (get_random_topic_POST P request_json) = [c]" and "generateContent P c = Inl error"
  shows "fst (get_random_topic_POST P request_json) = get_random_topic_catch error"
proof -
  from assms(1) have "snd (get_random_topic_try P request_json) = [c]"
    by (simp add: get_random_topic_POST_calls)
  from get_random_topic_try_calls [OF this] assms(2)
  show ?thesis by (simp add: get_random_topic_POST_def)
qed

lemma chat_explanation_POST_thrown:
  assumes "snd (chat_explanation_POST P request_json) = [c]" and "generateContent P c = Inl error"
  shows "fst (chat_explanation_POST P request_json) = chat_explanation_catch error"
proof -
  from assms(1) have "snd (chat_explanation_try P request_json) = [c]"
    by (simp add: chat_explanation_POST_calls)
  from chat_explanation_try_calls [OF this] assms(2)
  show ?thesis by (simp add: chat_explanation_POST_def)
qed

lemma generate_quiz_POST_reply:
  assumes "snd (generate_quiz_POST P request_json) = [c]" and "generateContent P c = Inr text"
  shows "fst (generate_quiz_POST P request_json) =
           (case quiz_reply P text of Inl error \<Rightarrow> generate_quiz_catch error | Inr r \<Rightarrow> r)"
proof -
  from assms(1) have "snd (generate_quiz_try P request_json) = [c]"
    by (simp add: generate_quiz_POST_calls)
  from generate_quiz_try_calls [OF this] assms(2)
  show ?thesis by (simp add: generate_quiz_POST_def split: sum.splits)
qed

lemma get_random_topic_POST_reply:
  assumes "snd (get_random_topic_POST P request_json) = [c]" and "generateContent P c = Inr text"
  shows "fst (get_random_topic_POST P request_json) =
           (case topic_reply P text of Inl error \<Rightarrow> get_random_topic_catch error | Inr r \<Rightarrow> r)"
proof -
  from assms(1) have "snd (get_random_topic_try P request_json) = [c]"
    by (simp add: get_random_topic_POST_calls)
  from get_random_topic_try_calls [OF this] assms(2)
  show ?thesis by (simp add: get_random_topic_POST_def split: sum.splits)
qed

lemma generate_quiz_call:
  assumes "snd (generate_quiz_POST P (Inr b)) = [c]"
  shows "\<exists>t d. interpolate P (get_property b ''topic'') = Inr t \<and>
               interpolate P (get_property b ''difficulty'') = Inr d \<and>
               prompt c = quiz_prompt t d \<and> temperature c = None \<and> model c = model_name P"
  using assms
  by (cases b)
     (auto simp: generate_quiz_POST_calls generate_quiz_try_def Let_def
           split: sum.splits if_splits)

lemma get_random_topic_call:
  assumes "snd (get_random_topic_POST P (Inr b)) = [c]"
  shows "\<exists>d. interpolate P (get_property b ''difficulty'') = Inr d \<and>
             prompt c = topic_prompt d \<and> temperature c = Some (11 / 10) \<and>
             model c = model_name P"
  using assms
  by (cases b)
     (auto simp: get_random_topic_POST_calls get_random_topic_try_def Let_def
           split: sum.splits if_splits)

lemma chat_explanation_call:
  assumes "snd (chat_explanation_POST P (Inr b)) = [c]"
  shows "\<exists>q msgs p. get_property b ''question'' = Some q \<and>
           get_property b ''chatHistory'' = Some (JArray msgs) \<and>
           chat_prompt P q (get_property b ''userMessage'') msgs = Inr p \<and>
           prompt c = p \<and> temperature c = None \<and> model c = model_name P"
  using assms
  by (cases b)
     (auto simp: chat_explanation_POST_calls chat_explanation_try_def Let_def
           split: sum.splits if_splits option.splits json.splits)

text \<open>
  The tests of the routes, in the words of the claims.
\<close>

lemma invalid_api_key_iff:
  "message error = Some m \<Longrightarrow>
     invalid_api_key error \<longleftrightarrow> includes_str m (str ''API key not valid'')"
  by (cases m) (auto simp: invalid_api_key_def str_def)

lemma incomplete_not_null:
  "q \<noteq> JNull \<Longrightarrow>
     incomplete q =
       Some (\<not> truthy (get_property q ''questionText'') \<or> \<not> truthy (get_property q ''options'') \<or>
             \<not> truthy (get_property q ''correctAnswer'') \<or> \<not> truthy (get_property q ''explanation''))"
  by (cases q) simp_all

lemma some_incomplete_False:
  "some_incomplete qs = Some False \<longleftrightarrow>
     (\<forall>q \<in> set qs. q \<noteq> JNull \<and> truthy (get_property q ''questionText'') \<and>
        truthy (get_property q ''options'') \<and> truthy (get_property q ''correctAnswer'') \<and>
        truthy (get_property q ''explanation''))"
proof (induction qs)
  case Nil
  show ?case by simp
next
  case (Cons q qs)
  show ?case
  proof (cases "q = JNull")
    case True
    then show ?thesis by simp
  next
    case False
    from incomplete_not_null [OF False] Cons.IH False show ?thesis
      by (auto split: option.splits bool.splits)
  qed
qed

lemma some_incomplete_no_null:
  "JNull \<notin> set qs \<Longrightarrow> some_incomplete qs \<noteq> None"
proof (induction qs)
  case Nil
  show ?case by simp
next
  case (Cons q qs)
  then have "q \<noteq> JNull" by auto
  from incomplete_not_null [OF this] Cons show ?case
    by (auto split: option.splits bool.splits)
qed

lemma TypeError_caught: "status (generate_quiz_catch (TypeError P)) = 500"
  by (simp add: generate_quiz_catch_def TypeError_def)


text \<open>
  The platform enters a prompt only through the conversion of values to strings.
\<close>

lemma interpolate_ToString:
  "ToString P' = ToString P \<Longrightarrow> interpolate P' v = interpolate P v"
  by (cases "(P, v)" rule: interpolate.cases) simp_all

lemma history_line_ToString:
  assumes "ToString P' = ToString P" and "history_line P msg = Inr l"
  shows "history_line P' msg = Inr l"
  using assms(2) interpolate_ToString [OF assms(1)]
  by (cases msg) (auto simp: history_line_def split: sum.splits)

lemma history_lines_ToString:
  assumes "ToString P' = ToString P"
  shows "history_lines P msgs = Inr ls \<Longrightarrow> history_lines P' msgs = Inr ls"
proof (induction msgs arbitrary: ls)
  case Nil
  then show ?case by simp
next
  case (Cons msg msgs)
  from Cons.prems obtain l ls' where
    l: "history_line P msg = Inr l" and ls': "history_lines P msgs = Inr ls'" and "ls = l @ ls'"
    by (auto split: sum.splits)
  with history_line_ToString [OF assms l] Cons.IH [OF ls'] show ?case by simp
qed

lemma chat_prompt_ToString:
  assumes "ToString P' = ToString P" and "chat_prompt P q u msgs = Inr p"
  shows "chat_prompt P' q u msgs = Inr p"
proof -
  from assms(2) obtain ls where ls: "history_lines P msgs = Inr ls"
    by (auto simp: chat_prompt_def split: sum.splits)
  from history_lines_ToString [OF assms(1) ls] assms(2) ls interpolate_ToString [OF assms(1)]
  show ?thesis by (auto simp: chat_prompt_def split: sum.splits)
qed

section \<open>The examples, evaluated\<close>

lemmas lex_defs = parse_text_def str_def between_char_def is_json_space_def is_digit_def scalar_def start_value_def
  start_key_def close_def escape_char_def

lemma cleanedText_blank_question_reply: "cleanedText blank_question_reply = blank_question_reply"
  by (simp add: cleanedText_def replace_leading_fence_def blank_question_reply_def str_def startsWith_def is_space_def)

lemma cleanedText_malformed_reply: "cleanedText malformed_reply = str ''not json at all''"
  by (simp add: cleanedText_def replace_leading_fence_def malformed_reply_def str_def startsWith_def is_space_def)

lemma cleanedText_odd_question_reply: \<open>cleanedText odd_question_reply = str
     ''[{"questionText": "Q", "options": ["a", "b"], "correctAnswer": "z", "explanation": "e"}]''\<close>
  by (simp add: cleanedText_def replace_leading_fence_def odd_question_reply_def str_def startsWith_def is_space_def)

lemma cleanedText_topic_replies:
  "cleanedText ancient_rome_reply = ancient_rome_reply"
  "cleanedText no_topic_reply = no_topic_reply"
  by (simp_all add: cleanedText_def replace_leading_fence_def ancient_rome_reply_def
                    no_topic_reply_def str_def startsWith_def is_space_def)

lemma parse_blank_question_reply: "parse_text blank_question_reply = Some (JArray [blank_question])"
  by (simp add: blank_question_reply_def blank_question_def lex_defs)

lemma parse_not_json: "parse_text (str ''not json at all'') = None"
  by (simp add: lex_defs)

lemma parse_odd_question_reply: "parse_text (cleanedText odd_question_reply) = Some (JArray [odd_question])"
  by (simp add: cleanedText_odd_question_reply odd_question_def lex_defs)

lemma parse_null_array: "parse_text (str ''[null]'') = Some (JArray [JNull])"
  by (simp add: lex_defs)

lemma parse_topic_replies:
  "parse_text ancient_rome_reply = Some (JObject [(str ''topic'', JString (str ''ancient rome''))])"
  "parse_text no_topic_reply = Some (JObject [(str ''subject'', JString (str ''ancient rome''))])"
  by (simp_all add: ancient_rome_reply_def no_topic_reply_def lex_defs)

lemma example_JSON_parse: "JSON_parse (example_platform g) = JSON_parse_text"
  by (simp add: example_platform_def)

lemma quiz_example_calls:
  "generate_quiz_try (example_platform g) (Inr (quiz_request ''Multiple Choice'')) =
     (case g quiz_call of
        Inl error \<Rightarrow> (Inl error, [quiz_call])
      | Inr text \<Rightarrow> (quiz_reply (example_platform g) text, [quiz_call]))"
  by (simp add: generate_quiz_try_def quiz_request_def quiz_call_def example_platform_def
                model_name_def str_def Let_def split: sum.splits)

lemma topic_example_calls:
  "get_random_topic_try (example_platform g) (Inr topic_request) =
     (case g topic_call of
        Inl error \<Rightarrow> (Inl error, [topic_call])
      | Inr text \<Rightarrow> (topic_reply (example_platform g) text, [topic_call]))"
  by (simp add: get_random_topic_try_def topic_request_def topic_call_def example_platform_def
                model_name_def str_def Let_def split: sum.splits)

lemma chat_example_calls:
  "chat_explanation_try (example_platform g) (Inr (chat_request (JArray chat_history))) =
     (case g chat_call of
        Inl error \<Rightarrow> (Inl error, [chat_call])
      | Inr text \<Rightarrow>
          (Inr \<lparr>status = 200, body = JObject [(str ''aiMessage'', JString text)]\<rparr>,
           [chat_call]))"
  by (simp add: chat_explanation_try_def chat_request_def chat_question_def chat_history_def
                chat_call_def example_platform_def model_name_def str_def Let_def
                invalid_question_def invalid_userMessage_def invalid_chatHistory_def
                trim_def is_space_def chat_prompt_def history_line_def split: sum.splits)

lemma quiz_example_POST_calls:
  "snd (generate_quiz_POST (example_platform g) (Inr (quiz_request ''Multiple Choice''))) =
     [quiz_call]"
  by (simp add: generate_quiz_POST_calls quiz_example_calls split: sum.splits)

lemma topic_example_POST_calls:
  "snd (get_random_topic_POST (example_platform g) (Inr topic_request)) = [topic_call]"
  by (simp add: get_random_topic_POST_calls topic_example_calls split: sum.splits)

lemma chat_example_POST_calls:
  "snd (chat_explanation_POST (example_platform g) (Inr (chat_request (JArray chat_history)))) =
     [chat_call]"
  by (simp add: chat_explanation_POST_calls chat_example_calls split: sum.splits)


section \<open>The fence-stripping round trip\<close>

text \<open>
  C5 as the claim states it fails. A text that is itself a fenced reply parses after
  cleaning, and is no JSON once it is wrapped again, since one pair of markers stays.
  And a text with a no-break space before the JSON is no JSON for \<open>JSON.parse\<close>, but
  parses once it is wrapped, since the cleaning of the wrapped text removes every white
  space of \<open>\s\<close> next to the markers.
\<close>

theorem fence_round_trip_counterexample:
  "parse_text (cleanedText (fenced [10] (fenced [10] (str ''[]'') [10]) [10])) = None \<and>
   parse_text (cleanedText (fenced [10] (str ''[]'') [10])) = Some (JArray []) \<and>
   parse_text (cleanedText (fenced [10] ([160] @ str ''[]'') [10])) = Some (JArray []) \<and>
   parse_text (cleanedText ([160] @ str ''[]'')) = None"
proof -
  have s: "list_all is_space [10]" by (simp add: is_space_def)
  have 1: "trim (fenced [10] (str ''[]'') [10]) = fenced [10] (str ''[]'') [10]"
    by (simp add: trim_def fenced_def str_def is_space_def)
  have 2: "trim (str ''[]'') = str ''[]''" "trim ([160] @ str ''[]'') = str ''[]''"
    by (simp_all add: trim_def str_def is_space_def)
  have 3: "cleanedText ([160] @ str ''[]'') = [160] @ str ''[]''"
    by (simp add: cleanedText_def replace_leading_fence_def str_def startsWith_def is_space_def)
  have 4: "parse_text (fenced [10] (str ''[]'') [10]) = None"
    "parse_text (str ''[]'') = Some (JArray [])"
    "parse_text ([160] @ str ''[]'') = None"
    by (simp_all add: fenced_def lex_defs)
  show ?thesis
    by (simp only: cleanedText_fenced [OF s s] 1 2 3 4 simp_thms)
qed

text \<open>
  C5, amended. For every text \<open>t\<close>, wrapped in the fence markers with any white space
  after the opening and before the closing marker: the cleaned text of the wrapped text
  is \<open>t\<close> without its leading and trailing white space. When \<open>t\<close> has no fence markers
  of its own at its ends, the extractor therefore yields for the wrapped text what it
  yields for \<open>t\<close>: with every parser when \<open>t\<close> has no white space at its ends, and with
  the JSON grammar when the white space at the ends of \<open>t\<close> is white space of JSON
  (space, TAB, LF, CR).
\<close>

theorem fence_stripping_round_trip:
  assumes "list_all is_space ws1" and "list_all is_space ws2"
  shows
    "cleanedText (fenced ws1 t ws2) = trim t \<and>
     (\<not> startsWith t (str ''```json'') \<and> \<not> endsWith t (str ''```'') \<and> trim t = t \<longrightarrow>
        JSON_parse P (cleanedText (fenced ws1 t ws2)) = JSON_parse P (cleanedText t)) \<and>
     (\<not> startsWith t (str ''```json'') \<and> \<not> endsWith t (str ''```'') \<and>
      list_all is_json_space (takeWhile is_space t) \<and>
      list_all is_json_space (takeWhile is_space (rev t)) \<longrightarrow>
        parse_text (cleanedText (fenced ws1 t ws2)) = parse_text (cleanedText t))"
proof (intro conjI impI)
  show c: "cleanedText (fenced ws1 t ws2) = trim t"
    by (rule cleanedText_fenced [OF assms])
  {
    assume "\<not> startsWith t (str ''```json'') \<and> \<not> endsWith t (str ''```'') \<and> trim t = t"
    with c cleanedText_id [of t]
    show "JSON_parse P (cleanedText (fenced ws1 t ws2)) = JSON_parse P (cleanedText t)"
      by simp
  }
  {
    assume a: "\<not> startsWith t (str ''```json'') \<and> \<not> endsWith t (str ''```'') \<and>
      list_all is_json_space (takeWhile is_space t) \<and>
      list_all is_json_space (takeWhile is_space (rev t))"
    then have "parse_text (trim t) = parse_text t"
      using parse_text_trim by blast
    with a c cleanedText_id [of t]
    show "parse_text (cleanedText (fenced ws1 t ws2)) = parse_text (cleanedText t)"
      by simp
  }
qed

theorem fence_stripping_round_trip_witness:
  "list_all is_space [10] \<and>
   \<not> startsWith ([32] @ ancient_rome_reply @ [13, 10]) (str ''```json'') \<and>
   \<not> endsWith ([32] @ ancient_rome_reply @ [13, 10]) (str ''```'') \<and>
   list_all is_json_space (takeWhile is_space ([32] @ ancient_rome_reply @ [13, 10])) \<and>
   list_all is_json_space (takeWhile is_space (rev ([32] @ ancient_rome_reply @ [13, 10]))) \<and>
   cleanedText (fenced [10] ([32] @ ancient_rome_reply @ [13, 10]) [10]) = ancient_rome_reply \<and>
   parse_text (cleanedText (fenced [10] ([32] @ ancient_rome_reply @ [13, 10]) [10])) =
     parse_text (cleanedText ([32] @ ancient_rome_reply @ [13, 10])) \<and>
   parse_text (cleanedText ([32] @ ancient_rome_reply @ [13, 10])) =
     Some (JObject [(str ''topic'', JString (str ''ancient rome''))]) \<and>
   trim ancient_rome_reply = ancient_rome_reply \<and>
   JSON_parse (example_platform (\<lambda>c. Inr [])) (cleanedText (fenced [10] ancient_rome_reply [10])) =
     JSON_parse (example_platform (\<lambda>c. Inr [])) (cleanedText ancient_rome_reply)"
proof -
  let ?t = "[32] @ ancient_rome_reply @ [13, 10]"
  have s: "list_all is_space [10]" by (simp add: is_space_def)
  have j: "list_all is_json_space [32]" "list_all is_json_space [13, 10]"
    by (simp_all add: is_json_space_def)
  have h: "\<not> startsWith ?t (str ''```json'')" "\<not> endsWith ?t (str ''```'')"
    "list_all is_json_space (takeWhile is_space ?t)"
    "list_all is_json_space (takeWhile is_space (rev ?t))"
    "\<not> startsWith ancient_rome_reply (str ''```json'')"
    "\<not> endsWith ancient_rome_reply (str ''```'')"
    by (simp_all add: startsWith_def endsWith_def str_def is_space_def is_json_space_def
                      ancient_rome_reply_def)
  have t: "trim ?t = ancient_rome_reply" "trim ancient_rome_reply = ancient_rome_reply"
    by (simp_all add: trim_def str_def is_space_def ancient_rome_reply_def)
  have c: "cleanedText ?t = ?t"
    by (rule cleanedText_id [OF h(1) h(2)])
  have p: "parse_text ?t = Some (JObject [(str ''topic'', JString (str ''ancient rome''))])"
    using parse_text_json_space [OF j, of ancient_rome_reply] parse_topic_replies(1)
    by (simp only:)
  note r = fence_stripping_round_trip [OF s s, of ?t]
  have 1: "cleanedText (fenced [10] ?t [10]) = ancient_rome_reply"
    using r [THEN conjunct1] t(1) by (simp only:)
  have 2: "parse_text (cleanedText (fenced [10] ?t [10])) = parse_text (cleanedText ?t)"
    by (rule r [THEN conjunct2, THEN conjunct2, THEN mp,
                OF conjI [OF h(1) conjI [OF h(2) conjI [OF h(3) h(4)]]]])
  have 3: "JSON_parse (example_platform (\<lambda>c. Inr [])) (cleanedText (fenced [10] ancient_rome_reply [10])) =
     JSON_parse (example_platform (\<lambda>c. Inr [])) (cleanedText ancient_rome_reply)"
    by (rule fence_stripping_round_trip [OF s s, THEN conjunct2, THEN conjunct1, THEN mp,
                OF conjI [OF h(5) conjI [OF h(6) t(2)]]])
  have 4: "parse_text (cleanedText ?t) =
             Some (JObject [(str ''topic'', JString (str ''ancient rome''))])"
    using c p by (simp only:)
  from s h(1-4) 1 2 4 t(2) 3 show ?thesis by (intro conjI)
qed

section \<open>Rejected requests\<close>

text \<open>
  C4. For every request body (any JSON value but \<open>null\<close>, whatever its topic and
  difficulty) whose \<open>questionType\<close> is not the string \<open>Multiple Choice\<close>, generate-quiz
  answers with status 400 and an error message, and the gateway is not called.
\<close>

theorem unsupported_question_type_is_rejected:
  assumes "b \<noteq> JNull"
    and "get_property b ''questionType'' \<noteq> Some (JString (str ''Multiple Choice''))"
  shows "status (fst (generate_quiz_POST P (Inr b))) = 400 \<and>
         (\<exists>m. body (fst (generate_quiz_POST P (Inr b))) = JObject [(str ''error'', JString m)]) \<and>
         snd (generate_quiz_POST P (Inr b)) = []"
  using assms
  by (cases b)
     (auto simp: generate_quiz_POST_def generate_quiz_try_def Let_def missing_parameters_def
                 invalid_question_type_def)

theorem unsupported_question_type_is_rejected_witness:
  "quiz_request ''True/False'' \<noteq> JNull \<and>
   truthy (get_property (quiz_request ''True/False'') ''topic'') \<and>
   truthy (get_property (quiz_request ''True/False'') ''difficulty'') \<and>
   get_property (quiz_request ''True/False'') ''questionType'' \<noteq>
     Some (JString (str ''Multiple Choice'')) \<and>
   status (fst (generate_quiz_POST (example_platform (\<lambda>c. Inr (str ''[]'')))
                  (Inr (quiz_request ''True/False'')))) = 400 \<and>
   snd (generate_quiz_POST (example_platform (\<lambda>c. Inr (str ''[]'')))
          (Inr (quiz_request ''True/False''))) = []"
proof -
  have 1: "quiz_request ''True/False'' \<noteq> JNull"
    by (simp add: quiz_request_def)
  have 2: "get_property (quiz_request ''True/False'') ''questionType'' \<noteq>
     Some (JString (str ''Multiple Choice''))"
    by (simp add: quiz_request_def str_def)
  have 3: "truthy (get_property (quiz_request ''True/False'') ''topic'')"
    "truthy (get_property (quiz_request ''True/False'') ''difficulty'')"
    by (simp_all add: quiz_request_def str_def)
  from unsupported_question_type_is_rejected [OF 1 2, of "example_platform (\<lambda>c. Inr (str ''[]''))"]
    1 2 3
  show ?thesis by blast
qed








section \<open>Failures of the gateway\<close>

text \<open>
  C1 as the claim states it fails: in the generate-quiz route a failure of the gateway
  with a rejected key and a failure with any other message are answered with the same
  status code, 500.
\<close>

theorem invalid_credential_status_counterexample:
  "status (fst (generate_quiz_POST
       (example_platform (\<lambda>c. Inl (Error_object ''GoogleGenerativeAIFetchError''
          ''API key not valid. Please pass a valid API key.'')))
       (Inr (quiz_request ''Multiple Choice'')))) = 500 \<and>
   status (fst (generate_quiz_POST
       (example_platform (\<lambda>c. Inl (Error_object ''TypeError'' ''fetch failed'')))
       (Inr (quiz_request ''Multiple Choice'')))) = 500 \<and>
   includes_str (str ''API key not valid. Please pass a valid API key.'')
     (str ''API key not valid'') \<and>
   \<not> includes_str (str ''fetch failed'') (str ''API key not valid'')"
  by (simp add: generate_quiz_POST_def quiz_example_calls generate_quiz_catch_def
                Error_object_def str_def startsWith_def)

text \<open>
  C1, amended. When a route has called the gateway and the gateway throws an \<open>Error\<close>
  whose message contains \<open>API key not valid\<close>, generate-quiz and get-random-topic answer
  with status 500 and the body \<open>{error: "Server configuration error: Invalid API key."}\<close>;
  for every other message they answer with status 500 and the body
  \<open>{error: "An unexpected error occurred.", details: message}\<close>. The two answers have the
  same status code and differ in the body. The chat-explanation route gives the first
  answer when the error is a \<open>GoogleGenerativeAIResponseError\<close> with such a message.
\<close>

theorem invalid_credential_is_told_by_the_body:
  assumes "generateContent P c = Inl error"
    and "instanceof_Error error"
    and "message error = Some m"
  shows
    "(snd (generate_quiz_POST P request_json) = [c] \<longrightarrow>
        fst (generate_quiz_POST P request_json) =
          (if includes_str m (str ''API key not valid'')
           then \<lparr>status = 500, body = JObject [(str ''error'',
                   JString (str ''Server configuration error: Invalid API key.''))]\<rparr>
           else \<lparr>status = 500, body = JObject [(str ''error'',
                   JString (str ''An unexpected error occurred.'')),
                   (str ''details'', JString m)]\<rparr>)) \<and>
     (snd (get_random_topic_POST P request_json) = [c] \<longrightarrow>
        fst (get_random_topic_POST P request_json) =
          (if includes_str m (str ''API key not valid'')
           then \<lparr>status = 500, body = JObject [(str ''error'',
                   JString (str ''Server configuration error: Invalid API key.''))]\<rparr>
           else \<lparr>status = 500, body = JObject [(str ''error'',
                   JString (str ''An unexpected error occurred.'')),
                   (str ''details'', JString m)]\<rparr>)) \<and>
     (snd (chat_explanation_POST P request_json) = [c] \<and> instanceof_ResponseError error \<and>
      includes_str m (str ''API key not valid'') \<longrightarrow>
        fst (chat_explanation_POST P request_json) =
          \<lparr>status = 500, body = JObject [(str ''error'',
             JString (str ''Server configuration error: Invalid API key.''))]\<rparr>)"
proof (intro conjI impI)
  assume "snd (generate_quiz_POST P request_json) = [c]"
  from generate_quiz_POST_thrown [OF this assms(1)] assms(2) invalid_api_key_iff [OF assms(3)]
  show "fst (generate_quiz_POST P request_json) =
          (if includes_str m (str ''API key not valid'')
           then \<lparr>status = 500, body = JObject [(str ''error'',
                   JString (str ''Server configuration error: Invalid API key.''))]\<rparr>
           else \<lparr>status = 500, body = JObject [(str ''error'',
                   JString (str ''An unexpected error occurred.'')),
                   (str ''details'', JString m)]\<rparr>)"
    by (simp add: generate_quiz_catch_def server_configuration_error_def unexpected_error_def
                  optional_member_def assms(3))
next
  assume "snd (get_random_topic_POST P request_json) = [c]"
  from get_random_topic_POST_thrown [OF this assms(1)] invalid_api_key_iff [OF assms(3)]
  show "fst (get_random_topic_POST P request_json) =
          (if includes_str m (str ''API key not valid'')
           then \<lparr>status = 500, body = JObject [(str ''error'',
                   JString (str ''Server configuration error: Invalid API key.''))]\<rparr>
           else \<lparr>status = 500, body = JObject [(str ''error'',
                   JString (str ''An unexpected error occurred.'')),
                   (str ''details'', JString m)]\<rparr>)"
    by (simp add: get_random_topic_catch_def server_configuration_error_def unexpected_error_def
                  optional_member_def assms(3))
next
  assume a: "snd (chat_explanation_POST P request_json) = [c] \<and> instanceof_ResponseError error \<and>
      includes_str m (str ''API key not valid'')"
  then have "snd (chat_explanation_POST P request_json) = [c]" by simp
  from chat_explanation_POST_thrown [OF this assms(1)] a invalid_api_key_iff [OF assms(3)]
  show "fst (chat_explanation_POST P request_json) =
          \<lparr>status = 500, body = JObject [(str ''error'',
             JString (str ''Server configuration error: Invalid API key.''))]\<rparr>"
    by (simp add: chat_explanation_catch_def server_configuration_error_def)
qed

theorem invalid_credential_is_told_by_the_body_witness:
  "fst (generate_quiz_POST
          (example_platform (\<lambda>c. Inl (Error_object ''GoogleGenerativeAIFetchError''
             ''API key not valid. Please pass a valid API key.'')))
          (Inr (quiz_request ''Multiple Choice''))) =
     \<lparr>status = 500, body = JObject [(str ''error'',
        JString (str ''Server configuration error: Invalid API key.''))]\<rparr> \<and>
   fst (generate_quiz_POST
          (example_platform (\<lambda>c. Inl (Error_object ''TypeError'' ''fetch failed'')))
          (Inr (quiz_request ''Multiple Choice''))) =
     \<lparr>status = 500, body = JObject [(str ''error'', JString (str ''An unexpected error occurred.'')),
        (str ''details'', JString (str ''fetch failed''))]\<rparr> \<and>
   fst (get_random_topic_POST
          (example_platform (\<lambda>c. Inl (Error_object ''GoogleGenerativeAIFetchError''
             ''API key not valid. Please pass a valid API key.'')))
          (Inr topic_request)) =
     \<lparr>status = 500, body = JObject [(str ''error'',
        JString (str ''Server configuration error: Invalid API key.''))]\<rparr> \<and>
   fst (chat_explanation_POST
          (example_platform (\<lambda>c. Inl (ResponseError_object
             ''API key not valid. Please pass a valid API key.'')))
          (Inr (chat_request (JArray chat_history)))) =
     \<lparr>status = 500, body = JObject [(str ''error'',
        JString (str ''Server configuration error: Invalid API key.''))]\<rparr>"
proof -
  let ?key = "''API key not valid. Please pass a valid API key.''"
  let ?fetch = "Error_object ''GoogleGenerativeAIFetchError'' ?key"
  let ?other = "Error_object ''TypeError'' ''fetch failed''"
  let ?resp = "ResponseError_object ?key"
  have k: "includes_str (str ?key) (str ''API key not valid'')"
    by (simp add: str_def startsWith_def)
  have n: "\<not> includes_str (str ''fetch failed'') (str ''API key not valid'')"
    by (simp add: str_def startsWith_def)
  have e: "instanceof_Error ?fetch" "message ?fetch = Some (str ?key)"
    "instanceof_Error ?other" "message ?other = Some (str ''fetch failed'')"
    "instanceof_Error ?resp" "message ?resp = Some (str ?key)" "instanceof_ResponseError ?resp"
    by (simp_all add: Error_object_def ResponseError_object_def)
  have g: "\<And>x c. generateContent (example_platform (\<lambda>c. Inl x)) c = Inl x"
    by (simp add: example_platform_def)
  note q = quiz_example_POST_calls topic_example_POST_calls chat_example_POST_calls
  from invalid_credential_is_told_by_the_body [where c = quiz_call and request_json = "Inr (quiz_request ''Multiple Choice'')",
      OF g e(1) e(2)] q k
  have 1: "fst (generate_quiz_POST (example_platform (\<lambda>c. Inl ?fetch))
          (Inr (quiz_request ''Multiple Choice''))) =
     \<lparr>status = 500, body = JObject [(str ''error'',
        JString (str ''Server configuration error: Invalid API key.''))]\<rparr>"
    by simp
  from invalid_credential_is_told_by_the_body [where c = quiz_call and request_json = "Inr (quiz_request ''Multiple Choice'')",
      OF g e(3) e(4)] q n
  have 2: "fst (generate_quiz_POST (example_platform (\<lambda>c. Inl ?other))
          (Inr (quiz_request ''Multiple Choice''))) =
     \<lparr>status = 500, body = JObject [(str ''error'', JString (str ''An unexpected error occurred.'')),
        (str ''details'', JString (str ''fetch failed''))]\<rparr>"
    by simp
  from invalid_credential_is_told_by_the_body [where c = topic_call and request_json = "Inr topic_request",
      OF g e(1) e(2)]
    q k
  have 3: "fst (get_random_topic_POST (example_platform (\<lambda>c. Inl ?fetch)) (Inr topic_request)) =
     \<lparr>status = 500, body = JObject [(str ''error'',
        JString (str ''Server configuration error: Invalid API key.''))]\<rparr>"
    by simp
  from invalid_credential_is_told_by_the_body [where c = chat_call and request_json = "Inr (chat_request (JArray chat_history))",
      OF g e(5) e(6)] q k e(7)
  have 4: "fst (chat_explanation_POST (example_platform (\<lambda>c. Inl ?resp))
          (Inr (chat_request (JArray chat_history)))) =
     \<lparr>status = 500, body = JObject [(str ''error'',
        JString (str ''Server configuration error: Invalid API key.''))]\<rparr>"
    by simp
  from 1 2 3 4 show ?thesis by blast
qed

section \<open>The replies of the model\<close>

text \<open>
  C6 as the claim states it fails: for a fenced reply that is no JSON, the body of the
  status-500 answer has the raw text, but neither the cleaned text nor the message of
  the parser.
\<close>

theorem malformed_reply_diagnostics_counterexample:
  "JSON_parse_text (cleanedText malformed_reply) =
     Inl (Error_object ''SyntaxError'' syntax_error_message) \<and>
   cleanedText malformed_reply = str ''not json at all'' \<and>
   status (fst (generate_quiz_POST (example_platform (\<lambda>c. Inr malformed_reply))
                  (Inr (quiz_request ''Multiple Choice'')))) = 500 \<and>
   carries (body (fst (generate_quiz_POST (example_platform (\<lambda>c. Inr malformed_reply))
                         (Inr (quiz_request ''Multiple Choice'')))))
     (JString malformed_reply) \<and>
   \<not> carries (body (fst (generate_quiz_POST (example_platform (\<lambda>c. Inr malformed_reply))
                           (Inr (quiz_request ''Multiple Choice'')))))
       (JString (cleanedText malformed_reply)) \<and>
   \<not> carries (body (fst (generate_quiz_POST (example_platform (\<lambda>c. Inr malformed_reply))
                           (Inr (quiz_request ''Multiple Choice'')))))
       (JString (str syntax_error_message))"
proof -
  have r: "fst (generate_quiz_POST (example_platform (\<lambda>c. Inr malformed_reply))
                  (Inr (quiz_request ''Multiple Choice''))) = quiz_parse_failure malformed_reply"
    by (simp add: generate_quiz_POST_def quiz_example_calls quiz_reply_def example_JSON_parse
                  JSON_parse_text_def cleanedText_malformed_reply parse_not_json)
  have m: "malformed_reply \<noteq> str ''not json at all''"
    "malformed_reply \<noteq> str syntax_error_message"
    by (simp_all add: malformed_reply_def syntax_error_message_def str_def)
  have d: "str ''Failed to parse quiz data from AI response. The response was not valid JSON.''
             \<noteq> str ''not json at all''"
    "str ''Failed to parse quiz data from AI response. The response was not valid JSON.''
             \<noteq> str syntax_error_message"
    by (simp_all add: syntax_error_message_def str_def)
  show ?thesis
    using m d
    by (simp add: r quiz_parse_failure_def carries_def JSON_parse_text_def cleanedText_malformed_reply parse_not_json)
qed

text \<open>
  C6, amended. When generate-quiz has called the gateway and the cleaned reply fails to
  parse, the answer has status 500 and the body
  \<open>{error: "Failed to parse quiz data from AI response. The response was not valid JSON.",
  rawResponse: text}\<close>: the fixed message and the raw text of the model, nothing else.
\<close>

theorem malformed_reply_answer:
  assumes "snd (generate_quiz_POST P request_json) = [c]"
    and "generateContent P c = Inr text"
    and "JSON_parse P (cleanedText text) = Inl e"
  shows "fst (generate_quiz_POST P request_json) =
           \<lparr>status = 500,
            body = JObject
              [(str ''error'', JString (str
                 ''Failed to parse quiz data from AI response. The response was not valid JSON.'')),
               (str ''rawResponse'', JString text)]\<rparr>"
  using generate_quiz_POST_reply [OF assms(1) assms(2)] assms(3)
  by (simp add: quiz_reply_def quiz_parse_failure_def)

theorem malformed_reply_answer_witness:
  "snd (generate_quiz_POST (example_platform (\<lambda>c. Inr malformed_reply))
          (Inr (quiz_request ''Multiple Choice''))) = [quiz_call] \<and>
   JSON_parse (example_platform (\<lambda>c. Inr malformed_reply)) (cleanedText malformed_reply) =
     Inl (Error_object ''SyntaxError'' syntax_error_message) \<and>
   fst (generate_quiz_POST (example_platform (\<lambda>c. Inr malformed_reply))
          (Inr (quiz_request ''Multiple Choice''))) =
     \<lparr>status = 500,
      body = JObject
        [(str ''error'', JString (str
           ''Failed to parse quiz data from AI response. The response was not valid JSON.'')),
         (str ''rawResponse'', JString malformed_reply)]\<rparr>"
proof -
  let ?P = "example_platform (\<lambda>c. Inr malformed_reply)"
  have 1: "snd (generate_quiz_POST ?P (Inr (quiz_request ''Multiple Choice''))) = [quiz_call]"
    by (rule quiz_example_POST_calls)
  have 2: "generateContent ?P quiz_call = Inr malformed_reply"
    by (simp add: example_platform_def)
  have 3: "JSON_parse ?P (cleanedText malformed_reply) =
             Inl (Error_object ''SyntaxError'' syntax_error_message)"
    by (simp add: example_JSON_parse JSON_parse_text_def cleanedText_malformed_reply parse_not_json)
  from malformed_reply_answer [OF 1 2 3] 1 3 show ?thesis by blast
qed

text \<open>
  C2 as the claim states it fails in both directions of its alternative. A reply
  whose one question has all four fields, the question text being the empty string, is
  answered with status 500; and the reply \<open>[null]\<close> is answered with status 500 and a
  body that does not carry the parsed value.
\<close>

theorem quiz_shape_check_counterexample:
  "JSON_parse_text (cleanedText blank_question_reply) = Inr (JArray [blank_question]) \<and>
   has_all_fields blank_question \<and>
   fst (generate_quiz_POST (example_platform (\<lambda>c. Inr blank_question_reply))
          (Inr (quiz_request ''Multiple Choice''))) =
     \<lparr>status = 500,
      body = JObject
        [(str ''error'', JString (str ''AI response did not follow the expected JSON structure.'')),
         (str ''data'', JArray [blank_question])]\<rparr> \<and>
   JSON_parse_text (cleanedText (str ''[null]'')) = Inr (JArray [JNull]) \<and>
   status (fst (generate_quiz_POST (example_platform (\<lambda>c. Inr (str ''[null]'')))
                  (Inr (quiz_request ''Multiple Choice'')))) = 500 \<and>
   \<not> carries (body (fst (generate_quiz_POST (example_platform (\<lambda>c. Inr (str ''[null]'')))
                           (Inr (quiz_request ''Multiple Choice'')))))
       (JArray [JNull])"
proof -
  have c: "cleanedText (str ''[null]'') = str ''[null]''"
    by (simp add: cleanedText_def replace_leading_fence_def str_def startsWith_def is_space_def)
  have 1: "JSON_parse_text (cleanedText blank_question_reply) = Inr (JArray [blank_question])"
    by (simp add: JSON_parse_text_def cleanedText_blank_question_reply parse_blank_question_reply)
  have 2: "has_all_fields blank_question"
    by (simp add: has_all_fields_def blank_question_def str_def)
  have 3: "fst (generate_quiz_POST (example_platform (\<lambda>c. Inr blank_question_reply))
          (Inr (quiz_request ''Multiple Choice''))) =
     \<lparr>status = 500,
      body = JObject
        [(str ''error'', JString (str ''AI response did not follow the expected JSON structure.'')),
         (str ''data'', JArray [blank_question])]\<rparr>"
    by (simp add: generate_quiz_POST_def quiz_example_calls quiz_reply_def example_JSON_parse 1
                  blank_question_def str_def)
       (simp add: quiz_structure_failure_def str_def)
  have 4: "JSON_parse_text (cleanedText (str ''[null]'')) = Inr (JArray [JNull])"
    by (simp add: JSON_parse_text_def c parse_null_array)
  have 5: "fst (generate_quiz_POST (example_platform (\<lambda>c. Inr (str ''[null]'')))
                  (Inr (quiz_request ''Multiple Choice''))) =
           generate_quiz_catch (TypeError (example_platform (\<lambda>c. Inr (str ''[null]''))))"
    by (simp add: generate_quiz_POST_def quiz_example_calls quiz_reply_def example_JSON_parse 4)
  have 6: "status (generate_quiz_catch (TypeError (example_platform (\<lambda>c. Inr (str ''[null]''))))) = 500"
    by (rule TypeError_caught)
  have 7: "\<not> carries (body (generate_quiz_catch
                 (TypeError (example_platform (\<lambda>c. Inr (str ''[null]'')))))) (JArray [JNull])"
    by (simp add: generate_quiz_catch_def TypeError_def carries_def server_configuration_error_def
                  unexpected_error_def optional_member_def example_platform_def)
  from 1 2 3 4 5 6 7 show ?thesis by simp
qed

text \<open>
  C2, amended. When generate-quiz has called the gateway and the cleaned reply parses
  as the JSON value \<open>v\<close>: the answer is status 200 with \<open>v\<close> unchanged if and only if \<open>v\<close>
  is an array in which every element is not \<open>null\<close> and has a truthy value (present, and
  not \<open>null\<close>, \<open>false\<close>, \<open>0\<close> or the empty string) in each of the four fields
  \<open>questionText\<close>, \<open>options\<close>, \<open>correctAnswer\<close>, \<open>explanation\<close>, with no check of what
  the values are; and when \<open>v\<close> is not an array, or is an array without \<open>null\<close>
  elements that fails the check, the answer has status 500 and carries \<open>v\<close> as \<open>data\<close>.
\<close>

theorem quiz_shape_check:
  assumes "snd (generate_quiz_POST P request_json) = [c]"
    and "generateContent P c = Inr text"
    and "JSON_parse P (cleanedText text) = Inr v"
  shows
    "(fst (generate_quiz_POST P request_json) = \<lparr>status = 200, body = v\<rparr> \<longleftrightarrow>
        (\<exists>qs. v = JArray qs \<and>
           (\<forall>q \<in> set qs. q \<noteq> JNull \<and> truthy (get_property q ''questionText'') \<and>
              truthy (get_property q ''options'') \<and> truthy (get_property q ''correctAnswer'') \<and>
              truthy (get_property q ''explanation'')))) \<and>
     (fst (generate_quiz_POST P request_json) \<noteq> \<lparr>status = 200, body = v\<rparr> \<and>
      (\<forall>qs. v = JArray qs \<longrightarrow> JNull \<notin> set qs) \<longrightarrow>
        fst (generate_quiz_POST P request_json) =
          \<lparr>status = 500,
           body = JObject
             [(str ''error'', JString (str
                ''AI response did not follow the expected JSON structure.'')),
              (str ''data'', v)]\<rparr>)"
proof -
  let ?r = "fst (generate_quiz_POST P request_json)"
  let ?ok = "\<lambda>qs. \<forall>q \<in> set qs. q \<noteq> JNull \<and> truthy (get_property q ''questionText'') \<and>
              truthy (get_property q ''options'') \<and> truthy (get_property q ''correctAnswer'') \<and>
              truthy (get_property q ''explanation'')"
  note r = generate_quiz_POST_reply [OF assms(1) assms(2)]
  show ?thesis
  proof (cases "\<exists>qs. v = JArray qs")
    case False
    then have "?r = quiz_structure_failure v"
      using r assms(3) by (cases v) (simp_all add: quiz_reply_def)
    with False show ?thesis by (auto simp: quiz_structure_failure_def)
  next
    case True
    then obtain qs where v: "v = JArray qs" by blast
    consider (thrown) "some_incomplete qs = None" | (bad) "some_incomplete qs = Some True"
      | (good) "some_incomplete qs = Some False"
      by (cases "some_incomplete qs") auto
    then show ?thesis
    proof cases
      case thrown
      then have "?r = generate_quiz_catch (TypeError P)"
        using r assms(3) v by (simp add: quiz_reply_def)
      moreover have "\<not> ?ok qs"
        using thrown some_incomplete_False [of qs] by simp
      moreover have "JNull \<in> set qs"
        using thrown some_incomplete_no_null [of qs] by blast
      ultimately show ?thesis
        using v TypeError_caught [of P] by auto
    next
      case bad
      then have "?r = quiz_structure_failure v"
        using r assms(3) v by (simp add: quiz_reply_def)
      moreover have "\<not> ?ok qs"
        using bad some_incomplete_False [of qs] by simp
      ultimately show ?thesis
        using v by (auto simp: quiz_structure_failure_def)
    next
      case good
      then have "?r = \<lparr>status = 200, body = v\<rparr>"
        using r assms(3) v by (simp add: quiz_reply_def)
      moreover have "?ok qs"
        using good some_incomplete_False [of qs] by simp
      ultimately show ?thesis
        using v by auto
    qed
  qed
qed

theorem quiz_shape_check_witness:
  "snd (generate_quiz_POST (example_platform (\<lambda>c. Inr odd_question_reply))
          (Inr (quiz_request ''Multiple Choice''))) = [quiz_call] \<and>
   JSON_parse (example_platform (\<lambda>c. Inr odd_question_reply)) (cleanedText odd_question_reply) =
     Inr (JArray [odd_question]) \<and>
   fst (generate_quiz_POST (example_platform (\<lambda>c. Inr odd_question_reply))
          (Inr (quiz_request ''Multiple Choice''))) =
     \<lparr>status = 200, body = JArray [odd_question]\<rparr> \<and>
   snd (generate_quiz_POST (example_platform (\<lambda>c. Inr blank_question_reply))
          (Inr (quiz_request ''Multiple Choice''))) = [quiz_call] \<and>
   JSON_parse (example_platform (\<lambda>c. Inr blank_question_reply))
     (cleanedText blank_question_reply) = Inr (JArray [blank_question]) \<and>
   fst (generate_quiz_POST (example_platform (\<lambda>c. Inr blank_question_reply))
          (Inr (quiz_request ''Multiple Choice''))) =
     \<lparr>status = 500,
      body = JObject
        [(str ''error'', JString (str ''AI response did not follow the expected JSON structure.'')),
         (str ''data'', JArray [blank_question])]\<rparr>"
proof -
  let ?P = "example_platform (\<lambda>c. Inr odd_question_reply)"
  let ?Q = "example_platform (\<lambda>c. Inr blank_question_reply)"
  let ?req = "Inr (quiz_request ''Multiple Choice'')"
  have 1: "snd (generate_quiz_POST ?P ?req) = [quiz_call]"
    and q1: "snd (generate_quiz_POST ?Q ?req) = [quiz_call]"
    by (rule quiz_example_POST_calls)+
  have 2: "generateContent ?P quiz_call = Inr odd_question_reply"
    and q2: "generateContent ?Q quiz_call = Inr blank_question_reply"
    by (simp_all add: example_platform_def)
  have 3: "JSON_parse ?P (cleanedText odd_question_reply) = Inr (JArray [odd_question])"
    by (simp add: example_JSON_parse JSON_parse_text_def parse_odd_question_reply)
  have q3: "JSON_parse ?Q (cleanedText blank_question_reply) = Inr (JArray [blank_question])"
    by (simp add: example_JSON_parse JSON_parse_text_def cleanedText_blank_question_reply parse_blank_question_reply)
  have ok: "\<forall>q \<in> set [odd_question]. q \<noteq> JNull \<and> truthy (get_property q ''questionText'') \<and>
              truthy (get_property q ''options'') \<and> truthy (get_property q ''correctAnswer'') \<and>
              truthy (get_property q ''explanation'')"
    by (simp add: odd_question_def str_def)
  have bad: "\<not> truthy (get_property blank_question ''questionText'')"
    "JNull \<notin> set [blank_question]"
    by (simp_all add: blank_question_def str_def)
  from quiz_shape_check [OF 1 2 3] ok
  have 4: "fst (generate_quiz_POST ?P ?req) = \<lparr>status = 200, body = JArray [odd_question]\<rparr>"
    by blast
  from quiz_shape_check [OF q1 q2 q3] bad
  have 5: "fst (generate_quiz_POST ?Q ?req) =
     \<lparr>status = 500,
      body = JObject
        [(str ''error'', JString (str ''AI response did not follow the expected JSON structure.'')),
         (str ''data'', JArray [blank_question])]\<rparr>"
    by auto
  from 1 q1 3 q3 4 5 show ?thesis by blast
qed

text \<open>
  C3. What get-random-topic does with a reply that parses as the JSON value \<open>data\<close>:
  an object with a string \<open>topic\<close> is passed on with status 200; a falsy value, an
  array, and an object whose \<open>topic\<close> is missing or no string are answered with status
  400 (not a server-error status) and a body with the raw text and the parsed value.
\<close>

theorem topic_shape_check:
  assumes "snd (get_random_topic_POST P request_json) = [c]"
    and "generateContent P c = Inr text"
    and "JSON_parse P (cleanedText text) = Inr data"
  shows
    "((\<exists>ms s. data = JObject ms \<and> map_of ms (str ''topic'') = Some (JString s)) \<longrightarrow>
        fst (get_random_topic_POST P request_json) = \<lparr>status = 200, body = data\<rparr>) \<and>
     ((\<exists>ms. data = JObject ms \<and> (\<forall>s. map_of ms (str ''topic'') \<noteq> Some (JString s))) \<or>
      (\<exists>xs. data = JArray xs) \<or> \<not> truthy (Some data) \<longrightarrow>
        fst (get_random_topic_POST P request_json) =
          \<lparr>status = 400,
           body = JObject
             [(str ''error'', JString (str
                 ''Invalid response from LLM. Expected a JSON object with a string 'topic' key.'')),
              (str ''rawResponseFromLLM'', JString text),
              (str ''parsedData'', data)]\<rparr>)"
proof -
  note r = get_random_topic_POST_reply [OF assms(1) assms(2)]
  have s: "is_string v \<longleftrightarrow> (\<exists>s. v = Some (JString s))" for v
    by (cases v rule: is_string.cases) simp_all
  show ?thesis
  proof (intro conjI impI)
    assume "\<exists>ms s. data = JObject ms \<and> map_of ms (str ''topic'') = Some (JString s)"
    then show "fst (get_random_topic_POST P request_json) = \<lparr>status = 200, body = data\<rparr>"
      using r assms(3) by (auto simp: topic_reply_def)
  next
    assume "(\<exists>ms. data = JObject ms \<and> (\<forall>s. map_of ms (str ''topic'') \<noteq> Some (JString s))) \<or>
      (\<exists>xs. data = JArray xs) \<or> \<not> truthy (Some data)"
    then have "topic_reply P text = Inr (topic_shape_failure text data)"
      using assms(3) by (auto simp: topic_reply_def s split: bool.splits)
    with r show "fst (get_random_topic_POST P request_json) =
          \<lparr>status = 400,
           body = JObject
             [(str ''error'', JString (str
                 ''Invalid response from LLM. Expected a JSON object with a string 'topic' key.'')),
              (str ''rawResponseFromLLM'', JString text),
              (str ''parsedData'', data)]\<rparr>"
      by (simp add: topic_shape_failure_def)
  qed
qed

theorem topic_shape_check_witness:
  "snd (get_random_topic_POST (example_platform (\<lambda>c. Inr no_topic_reply)) (Inr topic_request)) =
     [topic_call] \<and>
   JSON_parse (example_platform (\<lambda>c. Inr no_topic_reply)) (cleanedText no_topic_reply) =
     Inr (JObject [(str ''subject'', JString (str ''ancient rome''))]) \<and>
   fst (get_random_topic_POST (example_platform (\<lambda>c. Inr no_topic_reply)) (Inr topic_request)) =
     \<lparr>status = 400,
      body = JObject
        [(str ''error'', JString (str
            ''Invalid response from LLM. Expected a JSON object with a string 'topic' key.'')),
         (str ''rawResponseFromLLM'', JString no_topic_reply),
         (str ''parsedData'', JObject [(str ''subject'', JString (str ''ancient rome''))])]\<rparr> \<and>
   fst (get_random_topic_POST (example_platform (\<lambda>c. Inr ancient_rome_reply))
          (Inr topic_request)) =
     \<lparr>status = 200, body = JObject [(str ''topic'', JString (str ''ancient rome''))]\<rparr>"
proof -
  let ?P = "example_platform (\<lambda>c. Inr no_topic_reply)"
  let ?Q = "example_platform (\<lambda>c. Inr ancient_rome_reply)"
  have 1: "snd (get_random_topic_POST ?P (Inr topic_request)) = [topic_call]"
    and q1: "snd (get_random_topic_POST ?Q (Inr topic_request)) = [topic_call]"
    by (rule topic_example_POST_calls)+
  have 2: "generateContent ?P topic_call = Inr no_topic_reply"
    and q2: "generateContent ?Q topic_call = Inr ancient_rome_reply"
    by (simp_all add: example_platform_def)
  have 3: "JSON_parse ?P (cleanedText no_topic_reply) =
             Inr (JObject [(str ''subject'', JString (str ''ancient rome''))])"
    and q3: "JSON_parse ?Q (cleanedText ancient_rome_reply) =
             Inr (JObject [(str ''topic'', JString (str ''ancient rome''))])"
    by (simp_all add: example_JSON_parse JSON_parse_text_def cleanedText_topic_replies
                      parse_topic_replies)
  have m: "\<forall>s. map_of [(str ''subject'', JString (str ''ancient rome''))] (str ''topic'') \<noteq>
             Some (JString s)"
    "map_of [(str ''topic'', JString (str ''ancient rome''))] (str ''topic'') =
             Some (JString (str ''ancient rome''))"
    by (simp_all add: str_def)
  from topic_shape_check [OF 1 2 3] m(1)
  have 4: "fst (get_random_topic_POST ?P (Inr topic_request)) =
     \<lparr>status = 400,
      body = JObject
        [(str ''error'', JString (str
            ''Invalid response from LLM. Expected a JSON object with a string 'topic' key.'')),
         (str ''rawResponseFromLLM'', JString no_topic_reply),
         (str ''parsedData'', JObject [(str ''subject'', JString (str ''ancient rome''))])]\<rparr>"
    by blast
  from topic_shape_check [OF q1 q2 q3] m(2)
  have 5: "fst (get_random_topic_POST ?Q (Inr topic_request)) =
     \<lparr>status = 200, body = JObject [(str ''topic'', JString (str ''ancient rome''))]\<rparr>"
    by blast
  from 1 3 4 5 show ?thesis by blast
qed

section \<open>The prompts sent to the gateway\<close>

text \<open>
  C9. The prompt a route sends to the gateway is a function of the inputs of the prompt
  alone: two requests that agree on them (topic and difficulty; difficulty; question,
  latest message and history) send the same prompt, whatever else the bodies hold and
  whatever gateway, parser, model name and error texts the two runs have. The
  temperature is no part of the prompt: it is a field of the call of its own, 1.1 in
  get-random-topic and absent in the two other routes.
\<close>

theorem prompt_is_determined_by_its_inputs:
  assumes "ToString P' = ToString P"
  shows
    "(snd (generate_quiz_POST P (Inr b)) = [c] \<and> snd (generate_quiz_POST P' (Inr b')) = [c'] \<and>
      get_property b ''topic'' = get_property b' ''topic'' \<and>
      get_property b ''difficulty'' = get_property b' ''difficulty'' \<longrightarrow>
        prompt c = prompt c' \<and> temperature c = None \<and> temperature c' = None) \<and>
     (snd (get_random_topic_POST P (Inr b)) = [c] \<and>
      snd (get_random_topic_POST P' (Inr b')) = [c'] \<and>
      get_property b ''difficulty'' = get_property b' ''difficulty'' \<longrightarrow>
        prompt c = prompt c' \<and> temperature c = Some (11 / 10) \<and>
        temperature c' = Some (11 / 10)) \<and>
     (snd (chat_explanation_POST P (Inr b)) = [c] \<and>
      snd (chat_explanation_POST P' (Inr b')) = [c'] \<and>
      get_property b ''question'' = get_property b' ''question'' \<and>
      get_property b ''userMessage'' = get_property b' ''userMessage'' \<and>
      get_property b ''chatHistory'' = get_property b' ''chatHistory'' \<longrightarrow>
        prompt c = prompt c' \<and> temperature c = None \<and> temperature c' = None)"
proof (intro conjI; rule impI)
  assume a: "snd (generate_quiz_POST P (Inr b)) = [c] \<and>
      snd (generate_quiz_POST P' (Inr b')) = [c'] \<and>
      get_property b ''topic'' = get_property b' ''topic'' \<and>
      get_property b ''difficulty'' = get_property b' ''difficulty''"
  then have "snd (generate_quiz_POST P (Inr b)) = [c]" "snd (generate_quiz_POST P' (Inr b')) = [c']"
    by simp_all
  from generate_quiz_call [OF this(1)] generate_quiz_call [OF this(2)] a
    interpolate_ToString [OF assms]
  show "prompt c = prompt c' \<and> temperature c = None \<and> temperature c' = None"
    by auto
next
  assume a: "snd (get_random_topic_POST P (Inr b)) = [c] \<and>
      snd (get_random_topic_POST P' (Inr b')) = [c'] \<and>
      get_property b ''difficulty'' = get_property b' ''difficulty''"
  then have "snd (get_random_topic_POST P (Inr b)) = [c]"
    "snd (get_random_topic_POST P' (Inr b')) = [c']"
    by simp_all
  from get_random_topic_call [OF this(1)] get_random_topic_call [OF this(2)] a
    interpolate_ToString [OF assms]
  show "prompt c = prompt c' \<and> temperature c = Some (11 / 10) \<and> temperature c' = Some (11 / 10)"
    by auto
next
  assume a: "snd (chat_explanation_POST P (Inr b)) = [c] \<and>
      snd (chat_explanation_POST P' (Inr b')) = [c'] \<and>
      get_property b ''question'' = get_property b' ''question'' \<and>
      get_property b ''userMessage'' = get_property b' ''userMessage'' \<and>
      get_property b ''chatHistory'' = get_property b' ''chatHistory''"
  then have "snd (chat_explanation_POST P (Inr b)) = [c]"
    "snd (chat_explanation_POST P' (Inr b')) = [c']"
    by simp_all
  from chat_explanation_call [OF this(1)] chat_explanation_call [OF this(2)] a
  obtain q msgs p p' where
    p: "chat_prompt P q (get_property b ''userMessage'') msgs = Inr p" "prompt c = p"
       "temperature c = None"
    and p': "chat_prompt P' q (get_property b ''userMessage'') msgs = Inr p'" "prompt c' = p'"
       "temperature c' = None"
    by auto
  from chat_prompt_ToString [OF assms p(1)] p p'
  show "prompt c = prompt c' \<and> temperature c = None \<and> temperature c' = None"
    by simp
qed

theorem prompt_is_determined_by_its_inputs_witness:
  "snd (generate_quiz_POST (example_platform (\<lambda>c. Inr blank_question_reply))
          (Inr (quiz_request ''Multiple Choice''))) = [quiz_call] \<and>
   snd (generate_quiz_POST
          ((example_platform (\<lambda>c. Inl (Error_object ''TypeError'' ''fetch failed'')))
             \<lparr>GOOGLE_GEMINI_MODEL := Some (str ''gemini-2.0-flash'')\<rparr>)
          (Inr (JObject [(str ''questionType'', JString (str ''Multiple Choice'')),
                         (str ''difficulty'', JString (str ''High School'')),
                         (str ''attempt'', JNumber (Finite 2)),
                         (str ''topic'', JString (str ''World War II''))]))) =
     [quiz_call\<lparr>model := str ''gemini-2.0-flash''\<rparr>] \<and>
   prompt (quiz_call\<lparr>model := str ''gemini-2.0-flash''\<rparr>) = prompt quiz_call \<and>
   temperature quiz_call = None \<and>
   snd (get_random_topic_POST (example_platform (\<lambda>c. Inr ancient_rome_reply))
          (Inr topic_request)) = [topic_call] \<and>
   snd (get_random_topic_POST (example_platform (\<lambda>c. Inr no_topic_reply))
          (Inr topic_request)) = [topic_call] \<and>
   temperature topic_call = Some (11 / 10) \<and>
   snd (chat_explanation_POST (example_platform (\<lambda>c. Inr (str ''Because 2 + 2 = 4.'')))
          (Inr (chat_request (JArray chat_history)))) = [chat_call] \<and>
   snd (chat_explanation_POST (example_platform (\<lambda>c. Inr (str ''5 is one too many.'')))
          (Inr (chat_request (JArray chat_history)))) = [chat_call] \<and>
   temperature chat_call = None"
proof -
  let ?P = "example_platform (\<lambda>c. Inr blank_question_reply)"
  let ?P' = "(example_platform (\<lambda>c. Inl (Error_object ''TypeError'' ''fetch failed'')))
             \<lparr>GOOGLE_GEMINI_MODEL := Some (str ''gemini-2.0-flash'')\<rparr>"
  let ?b' = "JObject [(str ''questionType'', JString (str ''Multiple Choice'')),
                         (str ''difficulty'', JString (str ''High School'')),
                         (str ''attempt'', JNumber (Finite 2)),
                         (str ''topic'', JString (str ''World War II''))]"
  have t: "ToString ?P' = ToString ?P"
    and tt: "ToString (example_platform (\<lambda>c. Inr no_topic_reply)) =
             ToString (example_platform (\<lambda>c. Inr ancient_rome_reply))"
    and tc: "ToString (example_platform (\<lambda>c. Inr (str ''5 is one too many.''))) =
             ToString (example_platform (\<lambda>c. Inr (str ''Because 2 + 2 = 4.'')))"
    by (simp_all add: example_platform_def)
  have 1: "snd (generate_quiz_POST ?P (Inr (quiz_request ''Multiple Choice''))) = [quiz_call]"
    by (rule quiz_example_POST_calls)
  have 2: "snd (generate_quiz_POST ?P' (Inr ?b')) = [quiz_call\<lparr>model := str ''gemini-2.0-flash''\<rparr>]"
    by (simp add: generate_quiz_POST_calls generate_quiz_try_def quiz_call_def
                  example_platform_def model_name_def str_def Let_def)
  have 3: "get_property (quiz_request ''Multiple Choice'') ''topic'' = get_property ?b' ''topic''"
    "get_property (quiz_request ''Multiple Choice'') ''difficulty'' =
       get_property ?b' ''difficulty''"
    by (simp_all add: quiz_request_def str_def)
  from prompt_is_determined_by_its_inputs [OF t, of "quiz_request ''Multiple Choice''" quiz_call
      ?b' "quiz_call\<lparr>model := str ''gemini-2.0-flash''\<rparr>"] 1 2 3
  have 4: "prompt (quiz_call\<lparr>model := str ''gemini-2.0-flash''\<rparr>) = prompt quiz_call \<and>
           temperature quiz_call = None"
    by simp
  note 5 = topic_example_POST_calls [of "\<lambda>c. Inr ancient_rome_reply"]
    topic_example_POST_calls [of "\<lambda>c. Inr no_topic_reply"]
  from prompt_is_determined_by_its_inputs [OF tt, of topic_request topic_call topic_request
      topic_call] 5
  have 6: "temperature topic_call = Some (11 / 10)"
    by simp
  note 7 = chat_example_POST_calls [of "\<lambda>c. Inr (str ''Because 2 + 2 = 4.'')"]
    chat_example_POST_calls [of "\<lambda>c. Inr (str ''5 is one too many.'')"]
  from prompt_is_determined_by_its_inputs [OF tc, of "chat_request (JArray chat_history)"
      chat_call "chat_request (JArray chat_history)" chat_call] 7
  have 8: "temperature chat_call = None"
    by simp
  from 1 2 4 5 6 7 8 show ?thesis by blast
qed

section \<open>The answer state of the quiz page\<close>

lemma handleOptionSelect_Some:
  "handleOptionSelect (Some qs) i opt =
     Some (map (\<lambda>(qIndex, q). if qIndex = i \<and> \<not> isChecked q
                                then q\<lparr>selectedAnswer := Some opt\<rparr> else q) (enumerate 0 qs))"
  by (simp add: handleOptionSelect_def)

lemma handleCheckAnswer_Some:
  "handleCheckAnswer (Some qs) i =
     Some (map (\<lambda>(qIndex, q). if qIndex = i then q\<lparr>isChecked := True\<rparr> else q) (enumerate 0 qs))"
  by (simp add: handleCheckAnswer_def)

lemma select_nth:
  assumes "handleOptionSelect (Some qs) i opt = Some qs'" and "j < length qs"
  shows "length qs' = length qs"
    and "qs' ! j = (if j = i \<and> \<not> isChecked (qs ! j)
                    then (qs ! j)\<lparr>selectedAnswer := Some opt\<rparr> else qs ! j)"
  using assms by (auto simp: handleOptionSelect_Some nth_enumerate_eq)

lemma check_nth:
  assumes "handleCheckAnswer (Some qs) i = Some qs'" and "j < length qs"
  shows "length qs' = length qs"
    and "qs' ! j = (if j = i then (qs ! j)\<lparr>isChecked := True\<rparr> else qs ! j)"
  using assms by (auto simp: handleCheckAnswer_Some nth_enumerate_eq)

lemma on_click_frozen:
  assumes "j < length qs" and "isChecked (qs ! j)"
  shows "\<exists>qs'. on_click (Some qs) c = Some qs' \<and> length qs' = length qs \<and>
               isChecked (qs' ! j) \<and> selectedAnswer (qs' ! j) = selectedAnswer (qs ! j)"
proof (cases c)
  case (OptionSelect i opt)
  obtain qs' where q: "handleOptionSelect (Some qs) i opt = Some qs'"
    by (simp add: handleOptionSelect_Some)
  from select_nth [OF q assms(1)] assms(2) q OptionSelect show ?thesis by simp
next
  case (CheckAnswer i)
  obtain qs' where q: "handleCheckAnswer (Some qs) i = Some qs'"
    by (simp add: handleCheckAnswer_Some)
  from check_nth [OF q assms(1)] assms(2) q CheckAnswer show ?thesis by simp
qed

lemma after_clicks_frozen:
  assumes "j < length qs" and "isChecked (qs ! j)"
  shows "\<exists>qs'. after_clicks (Some qs) clicks = Some qs' \<and> length qs' = length qs \<and>
               isChecked (qs' ! j) \<and> selectedAnswer (qs' ! j) = selectedAnswer (qs ! j)"
  using assms
proof (induction clicks arbitrary: qs)
  case Nil
  then show ?case by (simp add: after_clicks_def)
next
  case (Cons c clicks)
  from on_click_frozen [OF Cons.prems, of c] obtain qs1 where
    s: "on_click (Some qs) c = Some qs1" and l: "length qs1 = length qs" and
    k: "isChecked (qs1 ! j)" and a: "selectedAnswer (qs1 ! j) = selectedAnswer (qs ! j)"
    by blast
  from Cons.prems l have "j < length qs1" by simp
  from Cons.IH [OF this k] obtain qs' where
    "after_clicks (Some qs1) clicks = Some qs'" "length qs' = length qs1"
    "isChecked (qs' ! j)" "selectedAnswer (qs' ! j) = selectedAnswer (qs1 ! j)"
    by blast
  with s l a show ?case by (simp add: after_clicks_def)
qed

text \<open>
  C8. On a displayed quiz \<open>qs\<close> and a question \<open>j\<close> of it: \<open>handleOptionSelect\<close> leaves
  question \<open>j\<close> unchanged when it is checked or is not the question clicked, and otherwise
  sets only its selected answer; \<open>handleCheckAnswer\<close> sets only \<open>isChecked\<close> of the
  question clicked (so never a selected answer) and leaves the other questions unchanged;
  and once question \<open>j\<close> is checked, it stays checked with the same selected answer after
  every sequence of the two operations.
\<close>

theorem checked_answer_is_frozen:
  assumes "j < length qs"
  shows "(\<exists>qs'. handleOptionSelect (Some qs) i opt = Some qs' \<and> length qs' = length qs \<and>
            (isChecked (qs ! j) \<or> j \<noteq> i \<longrightarrow> qs' ! j = qs ! j) \<and>
            (\<not> isChecked (qs ! j) \<and> j = i \<longrightarrow> qs' ! j = (qs ! j)\<lparr>selectedAnswer := Some opt\<rparr>)) \<and>
         (\<exists>qs'. handleCheckAnswer (Some qs) i = Some qs' \<and> length qs' = length qs \<and>
            selectedAnswer (qs' ! j) = selectedAnswer (qs ! j) \<and>
            (j = i \<longrightarrow> qs' ! j = (qs ! j)\<lparr>isChecked := True\<rparr>) \<and>
            (j \<noteq> i \<longrightarrow> qs' ! j = qs ! j)) \<and>
         (isChecked (qs ! j) \<longrightarrow>
            (\<exists>qs'. after_clicks (Some qs) clicks = Some qs' \<and> length qs' = length qs \<and>
               isChecked (qs' ! j) \<and> selectedAnswer (qs' ! j) = selectedAnswer (qs ! j)))"
proof (intro conjI impI)
  obtain qs' where q: "handleOptionSelect (Some qs) i opt = Some qs'"
    by (simp add: handleOptionSelect_Some)
  from select_nth [OF q assms] q
  show "\<exists>qs'. handleOptionSelect (Some qs) i opt = Some qs' \<and> length qs' = length qs \<and>
          (isChecked (qs ! j) \<or> j \<noteq> i \<longrightarrow> qs' ! j = qs ! j) \<and>
          (\<not> isChecked (qs ! j) \<and> j = i \<longrightarrow> qs' ! j = (qs ! j)\<lparr>selectedAnswer := Some opt\<rparr>)"
    by auto
next
  obtain qs' where q: "handleCheckAnswer (Some qs) i = Some qs'"
    by (simp add: handleCheckAnswer_Some)
  from check_nth [OF q assms] q
  show "\<exists>qs'. handleCheckAnswer (Some qs) i = Some qs' \<and> length qs' = length qs \<and>
          selectedAnswer (qs' ! j) = selectedAnswer (qs ! j) \<and>
          (j = i \<longrightarrow> qs' ! j = (qs ! j)\<lparr>isChecked := True\<rparr>) \<and>
          (j \<noteq> i \<longrightarrow> qs' ! j = qs ! j)"
    by auto
next
  assume "isChecked (qs ! j)"
  with after_clicks_frozen [OF assms]
  show "\<exists>qs'. after_clicks (Some qs) clicks = Some qs' \<and> length qs' = length qs \<and>
          isChecked (qs' ! j) \<and> selectedAnswer (qs' ! j) = selectedAnswer (qs ! j)"
    by blast
qed

theorem checked_answer_is_frozen_witness:
  "0 < length example_quiz \<and> isChecked (example_quiz ! 0) \<and>
   (\<exists>qs'. handleOptionSelect (Some example_quiz) 0 (str ''4'') = Some qs' \<and>
      qs' ! 0 = example_quiz ! 0) \<and>
   (\<exists>qs'. handleCheckAnswer (Some example_quiz) 1 = Some qs' \<and>
      qs' ! 0 = example_quiz ! 0) \<and>
   (\<exists>qs'. after_clicks (Some example_quiz)
            [OptionSelect 0 (str ''4''), OptionSelect 1 (str ''Rome''), CheckAnswer 1,
             CheckAnswer 0, OptionSelect 0 (str ''3'')] = Some qs' \<and>
      isChecked (qs' ! 0) \<and> selectedAnswer (qs' ! 0) = Some (str ''5''))"
proof -
  have h: "0 < length example_quiz" and c: "isChecked (example_quiz ! 0)"
    and a: "selectedAnswer (example_quiz ! 0) = Some (str ''5'')"
    by (simp_all add: example_quiz_def)
  from checked_answer_is_frozen [OF h, of 0 "str ''4''"] c
  have 1: "\<exists>qs'. handleOptionSelect (Some example_quiz) 0 (str ''4'') = Some qs' \<and>
      qs' ! 0 = example_quiz ! 0"
    by blast
  from checked_answer_is_frozen [OF h, of 1]
  have 2: "\<exists>qs'. handleCheckAnswer (Some example_quiz) 1 = Some qs' \<and>
      qs' ! 0 = example_quiz ! 0"
    by auto
  from checked_answer_is_frozen [OF h, of _ _
      "[OptionSelect 0 (str ''4''), OptionSelect 1 (str ''Rome''), CheckAnswer 1,
        CheckAnswer 0, OptionSelect 0 (str ''3'')]"] c a
  have 3: "\<exists>qs'. after_clicks (Some example_quiz)
            [OptionSelect 0 (str ''4''), OptionSelect 1 (str ''Rome''), CheckAnswer 1,
             CheckAnswer 0, OptionSelect 0 (str ''3'')] = Some qs' \<and>
      isChecked (qs' ! 0) \<and> selectedAnswer (qs' ! 0) = Some (str ''5'')"
    by auto
  from h c 1 2 3 show ?thesis by blast
qed

end
